theory Spec2Isabelle
  imports Complex_Main "HOL-Library.AList"
begin

section \<open>Python values\<close>

text \<open>
  The collections are JSON arrays of objects, read with \<open>json.load\<close> and handled as
  Python lists of dictionaries. A dictionary is an association list in insertion order
  (Python dictionaries keep it); its keys are pairwise distinct. Stored floating-point
  numbers are not part of the value model; every other JSON value is.
\<close>

datatype json =
    JNull
  | JBool bool
  | JInt int
  | JStr string
  | JArr "json list"
  | JObj "(string \<times> json) list"

type_synonym dict = "(string \<times> json) list"

text \<open>
  What a handler can raise: \<open>HTTPException\<close> with its status code and detail, and the
  exceptions no handler catches (FastAPI answers them with status 500).
\<close>

datatype py_error =
    HTTPException nat string
  | KeyError string
  | TypeError
  | ValueError
  | OSError

text \<open>Python's \<open>==\<close> on JSON values: \<open>True == 1\<close>, lists by position, dictionaries by key.\<close>

fun num_of :: "json \<Rightarrow> int option" where
  "num_of (JBool b) = Some (if b then 1 else 0)"
| "num_of (JInt n) = Some n"
| "num_of _ = None"

fun py_eq :: "json \<Rightarrow> json \<Rightarrow> bool" where
  "py_eq JNull b = (b = JNull)"
| "py_eq (JBool x) b = (num_of b = Some (if x then 1 else 0))"
| "py_eq (JInt n) b = (num_of b = Some n)"
| "py_eq (JStr s) b = (b = JStr s)"
| "py_eq (JArr xs) b = (case b of JArr ys \<Rightarrow> list_all2 py_eq xs ys | _ \<Rightarrow> False)"
| "py_eq (JObj d) b =
     (case b of
        JObj e \<Rightarrow> length d = length e \<and>
          list_all (\<lambda>(k, v). case map_of e k of None \<Rightarrow> False | Some w \<Rightarrow> py_eq v w) d
      | _ \<Rightarrow> False)"

text \<open>\<open>d[k]\<close>, \<open>d.get(k, default)\<close>, \<open>d[k] = v\<close> and \<open>d.update(patch)\<close>.\<close>

definition getitem :: "dict \<Rightarrow> string \<Rightarrow> py_error + json" where
  "getitem d k = (case map_of d k of None \<Rightarrow> Inl (KeyError k) | Some v \<Rightarrow> Inr v)"

definition dict_get :: "dict \<Rightarrow> string \<Rightarrow> json \<Rightarrow> json" where
  "dict_get d k dflt = (case map_of d k of None \<Rightarrow> dflt | Some v \<Rightarrow> v)"

definition setitem :: "dict \<Rightarrow> string \<Rightarrow> json \<Rightarrow> dict" where
  "setitem d k v = AList.update k v d"

definition dict_update :: "dict \<Rightarrow> dict \<Rightarrow> dict" where
  "dict_update d patch = fold (\<lambda>(k, v) acc. setitem acc k v) patch d"

text \<open>\<open>x + n\<close>, \<open>x - n\<close> and \<open>max(0, x)\<close> on a stored value: numbers and booleans only.\<close>

definition py_add :: "json \<Rightarrow> int \<Rightarrow> py_error + json" where
  "py_add x n = (case num_of x of None \<Rightarrow> Inl TypeError | Some m \<Rightarrow> Inr (JInt (m + n)))"

definition py_sub :: "json \<Rightarrow> int \<Rightarrow> py_error + json" where
  "py_sub x n = (case num_of x of None \<Rightarrow> Inl TypeError | Some m \<Rightarrow> Inr (JInt (m - n)))"

definition py_max0 :: "json \<Rightarrow> json" where
  "py_max0 x = (case num_of x of Some m \<Rightarrow> (if m > 0 then x else JInt 0) | None \<Rightarrow> x)"

text \<open>Truth value of a dictionary: the empty one is false (and so is \<open>None\<close>).\<close>

definition truthy :: "dict \<Rightarrow> bool" where
  "truthy d = (d \<noteq> [])"

definition opt_str :: "string option \<Rightarrow> json" where
  "opt_str s = (case s of None \<Rightarrow> JNull | Some t \<Rightarrow> JStr t)"

definition opt_int :: "int option \<Rightarrow> json" where
  "opt_int n = (case n of None \<Rightarrow> JNull | Some m \<Rightarrow> JInt m)"

definition opt_dict :: "dict option \<Rightarrow> json" where
  "opt_dict d = (case d of None \<Rightarrow> JNull | Some e \<Rightarrow> JObj e)"

subsection \<open>Generator expressions and comprehensions over a collection\<close>

text \<open>
  Each one walks the list from the front and raises \<open>KeyError\<close> at the first record that
  lacks the field it reads; \<open>any\<close> and \<open>next\<close> stop at the first hit.
\<close>

fun any_field_eq :: "string \<Rightarrow> json \<Rightarrow> dict list \<Rightarrow> py_error + bool" where
  "any_field_eq k v [] = Inr False"
| "any_field_eq k v (d # ds) =
     (case getitem d k of
        Inl e \<Rightarrow> Inl e
      | Inr x \<Rightarrow> if py_eq x v then Inr True else any_field_eq k v ds)"

fun any_two_fields_eq :: "string \<Rightarrow> json \<Rightarrow> string \<Rightarrow> json \<Rightarrow> dict list \<Rightarrow> py_error + bool" where
  "any_two_fields_eq k v k' v' [] = Inr False"
| "any_two_fields_eq k v k' v' (d # ds) =
     (case getitem d k of
        Inl e \<Rightarrow> Inl e
      | Inr x \<Rightarrow>
          if py_eq x v then
            (case getitem d k' of
               Inl e \<Rightarrow> Inl e
             | Inr y \<Rightarrow> if py_eq y v' then Inr True else any_two_fields_eq k v k' v' ds)
          else any_two_fields_eq k v k' v' ds)"

fun next_field_eq :: "string \<Rightarrow> json \<Rightarrow> dict list \<Rightarrow> py_error + dict option" where
  "next_field_eq k v [] = Inr None"
| "next_field_eq k v (d # ds) =
     (case getitem d k of
        Inl e \<Rightarrow> Inl e
      | Inr x \<Rightarrow> if py_eq x v then Inr (Some d) else next_field_eq k v ds)"

fun next_two_fields_eq :: "string \<Rightarrow> json \<Rightarrow> string \<Rightarrow> json \<Rightarrow> dict list \<Rightarrow> py_error + dict option" where
  "next_two_fields_eq k v k' v' [] = Inr None"
| "next_two_fields_eq k v k' v' (d # ds) =
     (case getitem d k of
        Inl e \<Rightarrow> Inl e
      | Inr x \<Rightarrow>
          if py_eq x v then
            (case getitem d k' of
               Inl e \<Rightarrow> Inl e
             | Inr y \<Rightarrow> if py_eq y v' then Inr (Some d) else next_two_fields_eq k v k' v' ds)
          else next_two_fields_eq k v k' v' ds)"

fun filter_field_eq :: "string \<Rightarrow> json \<Rightarrow> dict list \<Rightarrow> py_error + dict list" where
  "filter_field_eq k v [] = Inr []"
| "filter_field_eq k v (d # ds) =
     (case getitem d k of
        Inl e \<Rightarrow> Inl e
      | Inr x \<Rightarrow>
          (case filter_field_eq k v ds of
             Inl e \<Rightarrow> Inl e
           | Inr r \<Rightarrow> Inr (if py_eq x v then d # r else r)))"

fun filter_field_ne :: "string \<Rightarrow> json \<Rightarrow> dict list \<Rightarrow> py_error + dict list" where
  "filter_field_ne k v [] = Inr []"
| "filter_field_ne k v (d # ds) =
     (case getitem d k of
        Inl e \<Rightarrow> Inl e
      | Inr x \<Rightarrow>
          (case filter_field_ne k v ds of
             Inl e \<Rightarrow> Inl e
           | Inr r \<Rightarrow> Inr (if py_eq x v then r else d # r)))"

section \<open>Storage\<close>

datatype collection = DISTRICTS_FILE | DEPARTMENTS_FILE | EMPLOYEES_FILE | ATTENDANCE_FILE

text \<open>
  A backing file is absent, cannot be opened, holds text that \<open>json.load\<close> rejects, or
  holds an array of records. \<open>writes\<close> logs every call of \<open>save_json_data\<close>, oldest first.
  A write is taken to succeed: \<open>save_json_data\<close> catches a failed one and the handler goes
  on as if it had.
\<close>

datatype json_file = Absent | Unreadable | Corrupt | Stored "dict list"

record world =
  files :: "collection \<Rightarrow> json_file"
  writes :: "collection list"

definition os_path_exists :: "world \<Rightarrow> collection \<Rightarrow> bool" where
  "os_path_exists w p = (files w p \<noteq> Absent)"

text \<open>The body of the \<open>try\<close> in \<open>load_json_data\<close>: \<open>open\<close>, then \<open>json.load\<close>.\<close>

definition json_load :: "json_file \<Rightarrow> py_error + dict list" where
  "json_load f =
     (case f of
        Absent \<Rightarrow> Inl OSError
      | Unreadable \<Rightarrow> Inl OSError
      | Corrupt \<Rightarrow> Inl ValueError
      | Stored xs \<Rightarrow> Inr xs)"

definition load_json_data :: "world \<Rightarrow> collection \<Rightarrow> py_error + dict list" where
  "load_json_data w p =
     (if \<not> os_path_exists w p then Inr []
      else (case json_load (files w p) of Inl e \<Rightarrow> Inr [] | Inr xs \<Rightarrow> Inr xs))"

definition save_json_data :: "world \<Rightarrow> collection \<Rightarrow> dict list \<Rightarrow> world" where
  "save_json_data w p xs = w\<lparr>files := (files w)(p := Stored xs), writes := writes w @ [p]\<rparr>"

section \<open>Work hours\<close>

definition digit_of :: "char \<Rightarrow> int option" where
  "digit_of c =
     map_of [(CHR ''0'', 0), (CHR ''1'', 1), (CHR ''2'', 2), (CHR ''3'', 3), (CHR ''4'', 4),
             (CHR ''5'', 5), (CHR ''6'', 6), (CHR ''7'', 7), (CHR ''8'', 8), (CHR ''9'', 9)] c"

text \<open>
  \<open>datetime.strptime(s, "%H:%M")\<close> matches the regular expression
  \<open>(2[0-3]|[0-1]\d|\d):([0-5]\d|\d)\<close> at the start of \<open>s\<close> and raises \<open>ValueError\<close> when
  there is no match or when text remains after it. \<open>re_H\<close> and \<open>re_M\<close> list the ways a
  group can match a prefix, in the order the backtracking matcher tries them, each with
  the number read and the rest of the text. Digits are the ASCII digits.
\<close>

definition re_char :: "(int \<Rightarrow> bool) \<Rightarrow> string \<Rightarrow> (int \<times> string) list" where
  "re_char ok s =
     (case s of
        [] \<Rightarrow> []
      | c # r \<Rightarrow> (case digit_of c of None \<Rightarrow> [] | Some n \<Rightarrow> if ok n then [(n, r)] else []))"

definition re_seq :: "(int \<Rightarrow> bool) \<Rightarrow> (int \<Rightarrow> bool) \<Rightarrow> string \<Rightarrow> (int \<times> string) list" where
  "re_seq ok1 ok2 s =
     concat (map (\<lambda>(a, r). map (\<lambda>(b, r'). (10 * a + b, r')) (re_char ok2 r)) (re_char ok1 s))"

definition re_H :: "string \<Rightarrow> (int \<times> string) list" where
  "re_H s = re_seq (\<lambda>a. a = 2) (\<lambda>b. b \<le> 3) s @ re_seq (\<lambda>a. a \<le> 1) (\<lambda>b. True) s
            @ re_char (\<lambda>a. True) s"

definition re_M :: "string \<Rightarrow> (int \<times> string) list" where
  "re_M s = re_seq (\<lambda>a. a \<le> 5) (\<lambda>b. True) s @ re_char (\<lambda>a. True) s"

definition re_colon :: "string \<Rightarrow> string list" where
  "re_colon s = (case s of [] \<Rightarrow> [] | c # r \<Rightarrow> if c = CHR '':'' then [r] else [])"

definition re_HM :: "string \<Rightarrow> (int \<times> int \<times> string) list" where
  "re_HM s =
     concat (map (\<lambda>(h, r). concat (map (\<lambda>r'. map (\<lambda>(m, r''). (h, m, r'')) (re_M r'))
                                        (re_colon r)))
                 (re_H s))"

text \<open>The result is the time of day on 1900-01-01, kept as hour and minute.\<close>

definition strptime_HM :: "string \<Rightarrow> py_error + (int \<times> int)" where
  "strptime_HM s =
     (case re_HM s of
        [] \<Rightarrow> Inl ValueError
      | (h, m, rest) # _ \<Rightarrow> if rest \<noteq> [] then Inl ValueError else Inr (h, m))"

text \<open>
  A \<open>timedelta\<close> is its total number of seconds; \<open>.seconds\<close> is the part below one day.
\<close>

definition datetime_sub :: "int \<times> int \<Rightarrow> int \<times> int \<Rightarrow> int" where
  "datetime_sub a b = (fst a * 3600 + snd a * 60) - (fst b * 3600 + snd b * 60)"

definition datetime_gt :: "int \<times> int \<Rightarrow> int \<times> int \<Rightarrow> bool" where
  "datetime_gt a b = (fst a > fst b \<or> (fst a = fst b \<and> snd a > snd b))"

definition td_seconds :: "int \<Rightarrow> int" where
  "td_seconds t = t mod 86400"

text \<open>\<open>str(n)\<close> and the format \<open>02d\<close>.\<close>

fun str_nat :: "nat \<Rightarrow> string" where
  "str_nat n =
     (if n < 10 then [''0123456789'' ! n]
      else str_nat (n div 10) @ [''0123456789'' ! (n mod 10)])"

declare str_nat.simps [simp del]

definition py_str :: "int \<Rightarrow> string" where
  "py_str i = (if i < 0 then CHR ''-'' # str_nat (nat (- i)) else str_nat (nat i))"

definition fmt_02d :: "int \<Rightarrow> string" where
  "fmt_02d i =
     (if i < 0 then CHR ''-'' # replicate (1 - length (str_nat (nat (- i)))) CHR ''0''
                      @ str_nat (nat (- i))
      else replicate (2 - length (str_nat (nat i))) CHR ''0'' @ str_nat (nat i))"

definition calculate_work_hours :: "string option \<Rightarrow> string option \<Rightarrow> string" where
  "calculate_work_hours check_in check_out =
     (case (check_in, check_out) of
        (Some ci, Some co) \<Rightarrow>
          if ci = [] \<or> co = [] then ''0:00''
          else
            (case strptime_HM ci of
               Inl e \<Rightarrow> ''0:00''
             | Inr check_in_time \<Rightarrow>
                 (case strptime_HM co of
                    Inl e \<Rightarrow> ''0:00''
                  | Inr check_out_time \<Rightarrow>
                      if datetime_gt check_out_time check_in_time then
                        (let diff = datetime_sub check_out_time check_in_time;
                             diff = (if td_seconds diff > 6 * 3600 then diff - 3600 else diff);
                             hours = td_seconds diff div 3600;
                             minutes = (td_seconds diff mod 3600) div 60
                         in py_str hours @ '':'' @ fmt_02d minutes)
                      else ''0:00''))
      | _ \<Rightarrow> ''0:00'')"

section \<open>Request bodies\<close>

text \<open>
  The pydantic models, after validation: a field of type \<open>str\<close> is a string, an
  \<open>Optional\<close> one may be \<open>None\<close>. \<open>model_dump\<close> lists the fields in declaration order.
\<close>

record District =
  District_id :: "string option"
  District_name :: string
  District_code :: string
  District_description :: "string option"
  District_createdAt :: "string option"

record Department =
  Department_id :: "string option"
  Department_name :: string
  Department_departmentNumber :: string
  Department_districtId :: string
  Department_districtName :: "string option"
  Department_manager :: string
  Department_employeeCount :: "int option"
  Department_description :: "string option"
  Department_createdAt :: "string option"

record Employee =
  Employee_id :: "string option"
  Employee_name :: string
  Employee_phone :: string
  Employee_photo :: "string option"
  Employee_position :: string
  Employee_departmentId :: string
  Employee_departmentName :: "string option"
  Employee_departmentNumber :: "string option"
  Employee_districtName :: "string option"
  Employee_email :: "string option"
  Employee_status :: string
  Employee_createdAt :: "string option"

record AttendanceCreate =
  AttendanceCreate_employeeId :: string
  AttendanceCreate_date :: string
  AttendanceCreate_checkIn :: "string option"
  AttendanceCreate_checkOut :: "string option"
  AttendanceCreate_status :: string
  AttendanceCreate_location :: "dict option"

definition District_model_dump :: "District \<Rightarrow> dict" where
  "District_model_dump d =
     [(''id'', opt_str (District_id d)),
      (''name'', JStr (District_name d)),
      (''code'', JStr (District_code d)),
      (''description'', opt_str (District_description d)),
      (''createdAt'', opt_str (District_createdAt d))]"

definition Department_model_dump :: "Department \<Rightarrow> dict" where
  "Department_model_dump d =
     [(''id'', opt_str (Department_id d)),
      (''name'', JStr (Department_name d)),
      (''departmentNumber'', JStr (Department_departmentNumber d)),
      (''districtId'', JStr (Department_districtId d)),
      (''districtName'', opt_str (Department_districtName d)),
      (''manager'', JStr (Department_manager d)),
      (''employeeCount'', opt_int (Department_employeeCount d)),
      (''description'', opt_str (Department_description d)),
      (''createdAt'', opt_str (Department_createdAt d))]"

definition Employee_model_dump :: "Employee \<Rightarrow> dict" where
  "Employee_model_dump e =
     [(''id'', opt_str (Employee_id e)),
      (''name'', JStr (Employee_name e)),
      (''phone'', JStr (Employee_phone e)),
      (''photo'', opt_str (Employee_photo e)),
      (''position'', JStr (Employee_position e)),
      (''departmentId'', JStr (Employee_departmentId e)),
      (''departmentName'', opt_str (Employee_departmentName e)),
      (''departmentNumber'', opt_str (Employee_departmentNumber e)),
      (''districtName'', opt_str (Employee_districtName e)),
      (''email'', opt_str (Employee_email e)),
      (''status'', JStr (Employee_status e)),
      (''createdAt'', opt_str (Employee_createdAt e))]"

record APIResponse =
  success :: bool
  data :: json
  message :: "string option"

section \<open>Handlers\<close>

text \<open>
  A handler takes the world and its arguments and gives what it returns or raises,
  with the world it leaves. \<open>uuid\<close> is the value \<open>generate_id()\<close> returns in the call and
  \<open>now\<close> the value of \<open>get_current_datetime()\<close>; \<open>today\<close>, in \<open>get_statistics\<close>, is the
  current date as \<open>strftime\<close> prints it. The requests are those that the logging
  middleware lets through.
\<close>

type_synonym 'a outcome = "(py_error + 'a) \<times> world"

definition or_raise :: "py_error + 'a \<Rightarrow> world \<Rightarrow> ('a \<Rightarrow> 'b outcome) \<Rightarrow> 'b outcome" where
  "or_raise m w k = (case m of Inl e \<Rightarrow> (Inl e, w) | Inr v \<Rightarrow> k v)"

text \<open>
  The loop of the three \<open>PUT\<close> handlers: the first record whose \<open>id\<close> equals the path
  parameter takes every item of the body; \<open>None\<close> when the loop runs to its end.
\<close>

fun update_by_id :: "json \<Rightarrow> dict \<Rightarrow> dict list \<Rightarrow> py_error + (dict list \<times> dict) option" where
  "update_by_id k patch [] = Inr None"
| "update_by_id k patch (d # ds) =
     (case getitem d ''id'' of
        Inl e \<Rightarrow> Inl e
      | Inr v \<Rightarrow>
          if py_eq v k then Inr (Some (dict_update d patch # ds, dict_update d patch))
          else
            (case update_by_id k patch ds of
               Inl e \<Rightarrow> Inl e
             | Inr None \<Rightarrow> Inr None
             | Inr (Some (ds', r)) \<Rightarrow> Inr (Some (d # ds', r))))"

subsection \<open>Districts\<close>

definition get_districts :: "world \<Rightarrow> APIResponse outcome" where
  "get_districts w =
     or_raise (load_json_data w DISTRICTS_FILE) w (\<lambda>districts.
       (Inr \<lparr>success = True, data = JArr (map JObj districts), message = None\<rparr>, w))"

definition create_district :: "world \<Rightarrow> string \<Rightarrow> string \<Rightarrow> District \<Rightarrow> APIResponse outcome" where
  "create_district w uuid now district =
     or_raise (load_json_data w DISTRICTS_FILE) w (\<lambda>districts.
     or_raise (any_field_eq ''code'' (JStr (District_code district)) districts) w (\<lambda>dup.
       if dup then (Inl (HTTPException 400 ''Bu kod allaqachon mavjud''), w)
       else
         (let new_district = District_model_dump district;
              new_district = setitem new_district ''id'' (JStr uuid);
              new_district = setitem new_district ''createdAt'' (JStr now);
              districts = districts @ [new_district];
              w = save_json_data w DISTRICTS_FILE districts
          in (Inr \<lparr>success = True, data = JObj new_district,
                   message = Some ''Tuman muvaffaqiyatli qo'shildi''\<rparr>, w))))"

definition update_district :: "world \<Rightarrow> string \<Rightarrow> dict \<Rightarrow> APIResponse outcome" where
  "update_district w district_id district_data =
     or_raise (load_json_data w DISTRICTS_FILE) w (\<lambda>districts.
     or_raise (update_by_id (JStr district_id) district_data districts) w (\<lambda>r.
       case r of
         None \<Rightarrow> (Inl (HTTPException 404 ''Tuman topilmadi''), w)
       | Some (districts, d) \<Rightarrow>
           (Inr \<lparr>success = True, data = JObj d, message = Some ''Tuman yangilandi''\<rparr>,
            save_json_data w DISTRICTS_FILE districts)))"

definition delete_district :: "world \<Rightarrow> string \<Rightarrow> APIResponse outcome" where
  "delete_district w district_id =
     or_raise (load_json_data w DISTRICTS_FILE) w (\<lambda>districts.
     or_raise (load_json_data w DEPARTMENTS_FILE) w (\<lambda>departments.
     or_raise (any_field_eq ''districtId'' (JStr district_id) departments) w (\<lambda>used.
       if used then (Inl (HTTPException 400 ''Bu tumanda bo'limlar mavjud''), w)
       else
         or_raise (filter_field_ne ''id'' (JStr district_id) districts) w (\<lambda>districts.
           (Inr \<lparr>success = True, data = JNull, message = Some ''Tuman o'chirildi''\<rparr>,
            save_json_data w DISTRICTS_FILE districts)))))"

subsection \<open>Departments\<close>

definition get_departments :: "world \<Rightarrow> APIResponse outcome" where
  "get_departments w =
     or_raise (load_json_data w DEPARTMENTS_FILE) w (\<lambda>departments.
       (Inr \<lparr>success = True, data = JArr (map JObj departments), message = None\<rparr>, w))"

definition create_department :: "world \<Rightarrow> string \<Rightarrow> string \<Rightarrow> Department \<Rightarrow> APIResponse outcome" where
  "create_department w uuid now department =
     or_raise (load_json_data w DEPARTMENTS_FILE) w (\<lambda>departments.
     or_raise (load_json_data w DISTRICTS_FILE) w (\<lambda>districts.
     or_raise (any_two_fields_eq
                 ''departmentNumber'' (JStr (Department_departmentNumber department))
                 ''districtId'' (JStr (Department_districtId department)) departments) w (\<lambda>dup.
       if dup then (Inl (HTTPException 400 ''Bu bo'lim raqami allaqachon mavjud''), w)
       else
         or_raise (next_field_eq ''id'' (JStr (Department_districtId department)) districts) w
           (\<lambda>found.
             case found of
               None \<Rightarrow> (Inl (HTTPException 404 ''Tuman topilmadi''), w)
             | Some district \<Rightarrow>
                 if \<not> truthy district then (Inl (HTTPException 404 ''Tuman topilmadi''), w)
                 else
                   (let new_department = Department_model_dump department;
                        new_department = setitem new_department ''id'' (JStr uuid)
                    in or_raise (getitem district ''name'') w (\<lambda>district_name.
                         (let new_department =
                                setitem new_department ''districtName'' district_name;
                              new_department = setitem new_department ''createdAt'' (JStr now);
                              departments = departments @ [new_department];
                              w = save_json_data w DEPARTMENTS_FILE departments
                          in (Inr \<lparr>success = True, data = JObj new_department,
                                   message = Some ''Bo'lim muvaffaqiyatli qo'shildi''\<rparr>,
                              w))))))))"

definition update_department :: "world \<Rightarrow> string \<Rightarrow> dict \<Rightarrow> APIResponse outcome" where
  "update_department w department_id department_data =
     or_raise (load_json_data w DEPARTMENTS_FILE) w (\<lambda>departments.
     or_raise (update_by_id (JStr department_id) department_data departments) w (\<lambda>r.
       case r of
         None \<Rightarrow> (Inl (HTTPException 404 ''Bo'lim topilmadi''), w)
       | Some (departments, d) \<Rightarrow>
           (Inr \<lparr>success = True, data = JObj d, message = Some ''Bo'lim yangilandi''\<rparr>,
            save_json_data w DEPARTMENTS_FILE departments)))"

definition delete_department :: "world \<Rightarrow> string \<Rightarrow> APIResponse outcome" where
  "delete_department w department_id =
     or_raise (load_json_data w DEPARTMENTS_FILE) w (\<lambda>departments.
     or_raise (load_json_data w EMPLOYEES_FILE) w (\<lambda>employees.
     or_raise (any_field_eq ''departmentId'' (JStr department_id) employees) w (\<lambda>used.
       if used then (Inl (HTTPException 400 ''Bu bo'limda ishchilar mavjud''), w)
       else
         or_raise (filter_field_ne ''id'' (JStr department_id) departments) w (\<lambda>departments.
           (Inr \<lparr>success = True, data = JNull, message = Some ''Bo'lim o'chirildi''\<rparr>,
            save_json_data w DEPARTMENTS_FILE departments)))))"

subsection \<open>Employees\<close>

text \<open>
  The \<open>for\<close> statements that adjust \<open>employeeCount\<close> after an employee is added or removed: the
  first department with the \<open>id\<close>, then \<open>break\<close>.
\<close>

fun increment_employeeCount :: "json \<Rightarrow> dict list \<Rightarrow> py_error + dict list" where
  "increment_employeeCount k [] = Inr []"
| "increment_employeeCount k (d # ds) =
     (case getitem d ''id'' of
        Inl e \<Rightarrow> Inl e
      | Inr v \<Rightarrow>
          if py_eq v k then
            (case py_add (dict_get d ''employeeCount'' (JInt 0)) 1 of
               Inl e \<Rightarrow> Inl e
             | Inr c \<Rightarrow> Inr (setitem d ''employeeCount'' c # ds))
          else
            (case increment_employeeCount k ds of
               Inl e \<Rightarrow> Inl e
             | Inr ds' \<Rightarrow> Inr (d # ds')))"

fun decrement_employeeCount :: "dict \<Rightarrow> dict list \<Rightarrow> py_error + dict list" where
  "decrement_employeeCount employee [] = Inr []"
| "decrement_employeeCount employee (d # ds) =
     (case getitem d ''id'' of
        Inl e \<Rightarrow> Inl e
      | Inr v \<Rightarrow>
          (case getitem employee ''departmentId'' of
             Inl e \<Rightarrow> Inl e
           | Inr k \<Rightarrow>
               if py_eq v k then
                 (case py_sub (dict_get d ''employeeCount'' (JInt 1)) 1 of
                    Inl e \<Rightarrow> Inl e
                  | Inr c \<Rightarrow> Inr (setitem d ''employeeCount'' (py_max0 c) # ds))
               else
                 (case decrement_employeeCount employee ds of
                    Inl e \<Rightarrow> Inl e
                  | Inr ds' \<Rightarrow> Inr (d # ds'))))"

definition get_employees :: "world \<Rightarrow> APIResponse outcome" where
  "get_employees w =
     or_raise (load_json_data w EMPLOYEES_FILE) w (\<lambda>employees.
       (Inr \<lparr>success = True, data = JArr (map JObj employees), message = None\<rparr>, w))"

definition create_employee :: "world \<Rightarrow> string \<Rightarrow> string \<Rightarrow> Employee \<Rightarrow> APIResponse outcome" where
  "create_employee w uuid now employee =
     or_raise (load_json_data w EMPLOYEES_FILE) w (\<lambda>employees.
     or_raise (load_json_data w DEPARTMENTS_FILE) w (\<lambda>departments.
     or_raise (any_field_eq ''phone'' (JStr (Employee_phone employee)) employees) w (\<lambda>dup.
       if dup then (Inl (HTTPException 400 ''Bu telefon raqami allaqachon mavjud''), w)
       else
         or_raise (next_field_eq ''id'' (JStr (Employee_departmentId employee)) departments) w
           (\<lambda>found.
             case found of
               None \<Rightarrow> (Inl (HTTPException 404 ''Bo'lim topilmadi''), w)
             | Some department \<Rightarrow>
                 if \<not> truthy department then (Inl (HTTPException 404 ''Bo'lim topilmadi''), w)
                 else
                   (let new_employee = Employee_model_dump employee;
                        new_employee = setitem new_employee ''id'' (JStr uuid)
                    in or_raise (getitem department ''name'') w (\<lambda>name.
                       or_raise (getitem department ''departmentNumber'') w (\<lambda>number.
                       or_raise (getitem department ''districtName'') w (\<lambda>district_name.
                         (let new_employee = setitem new_employee ''departmentName'' name;
                              new_employee = setitem new_employee ''departmentNumber'' number;
                              new_employee = setitem new_employee ''districtName'' district_name;
                              new_employee = setitem new_employee ''createdAt'' (JStr now);
                              employees = employees @ [new_employee];
                              w = save_json_data w EMPLOYEES_FILE employees
                          in or_raise (load_json_data w DEPARTMENTS_FILE) w (\<lambda>departments.
                             or_raise (increment_employeeCount
                                         (JStr (Employee_departmentId employee)) departments) w
                               (\<lambda>departments.
                                 (Inr \<lparr>success = True, data = JObj new_employee,
                                       message = Some ''Ishchi muvaffaqiyatli qo'shildi''\<rparr>,
                                  save_json_data w DEPARTMENTS_FILE departments))))))))))))"

definition update_employee :: "world \<Rightarrow> string \<Rightarrow> dict \<Rightarrow> APIResponse outcome" where
  "update_employee w employee_id employee_data =
     or_raise (load_json_data w EMPLOYEES_FILE) w (\<lambda>employees.
     or_raise (update_by_id (JStr employee_id) employee_data employees) w (\<lambda>r.
       case r of
         None \<Rightarrow> (Inl (HTTPException 404 ''Ishchi topilmadi''), w)
       | Some (employees, e) \<Rightarrow>
           (Inr \<lparr>success = True, data = JObj e,
                 message = Some ''Ishchi ma'lumotlari yangilandi''\<rparr>,
            save_json_data w EMPLOYEES_FILE employees)))"

definition delete_employee :: "world \<Rightarrow> string \<Rightarrow> APIResponse outcome" where
  "delete_employee w employee_id =
     or_raise (load_json_data w EMPLOYEES_FILE) w (\<lambda>employees.
     or_raise (load_json_data w DEPARTMENTS_FILE) w (\<lambda>departments.
     or_raise (next_field_eq ''id'' (JStr employee_id) employees) w (\<lambda>found.
       case found of
         None \<Rightarrow> (Inl (HTTPException 404 ''Ishchi topilmadi''), w)
       | Some employee \<Rightarrow>
           if \<not> truthy employee then (Inl (HTTPException 404 ''Ishchi topilmadi''), w)
           else
             or_raise (filter_field_ne ''id'' (JStr employee_id) employees) w (\<lambda>employees.
               (let w = save_json_data w EMPLOYEES_FILE employees
                in or_raise (decrement_employeeCount employee departments) w (\<lambda>departments.
                     (Inr \<lparr>success = True, data = JNull, message = Some ''Ishchi o'chirildi''\<rparr>,
                      save_json_data w DEPARTMENTS_FILE departments)))))))"

subsection \<open>Attendance\<close>

definition get_attendance :: "world \<Rightarrow> string \<Rightarrow> APIResponse outcome" where
  "get_attendance w date =
     or_raise (load_json_data w ATTENDANCE_FILE) w (\<lambda>attendance_records.
     or_raise (filter_field_eq ''date'' (JStr date) attendance_records) w (\<lambda>filtered_records.
       (Inr \<lparr>success = True, data = JArr (map JObj filtered_records), message = None\<rparr>, w)))"

text \<open>
  The loop of \<open>mark_attendance\<close> over the records once one for the employee and date
  exists: the first record whose \<open>id\<close> equals that record's \<open>id\<close> is updated.
\<close>

fun update_existing :: "dict \<Rightarrow> dict \<Rightarrow> dict list \<Rightarrow> py_error + dict list" where
  "update_existing existing_record patch [] = Inr []"
| "update_existing existing_record patch (record # rs) =
     (case getitem record ''id'' of
        Inl e \<Rightarrow> Inl e
      | Inr v \<Rightarrow>
          (case getitem existing_record ''id'' of
             Inl e \<Rightarrow> Inl e
           | Inr k \<Rightarrow>
               if py_eq v k then Inr (dict_update record patch # rs)
               else
                 (case update_existing existing_record patch rs of
                    Inl e \<Rightarrow> Inl e
                  | Inr rs' \<Rightarrow> Inr (record # rs'))))"

definition attendance_update :: "AttendanceCreate \<Rightarrow> dict" where
  "attendance_update attendance =
     [(''checkIn'', opt_str (AttendanceCreate_checkIn attendance)),
      (''checkOut'', opt_str (AttendanceCreate_checkOut attendance)),
      (''status'', JStr (AttendanceCreate_status attendance)),
      (''location'', opt_dict (AttendanceCreate_location attendance)),
      (''workHours'',
        JStr (calculate_work_hours (AttendanceCreate_checkIn attendance)
                (AttendanceCreate_checkOut attendance)))]"

definition new_record :: "string \<Rightarrow> dict \<Rightarrow> AttendanceCreate \<Rightarrow> py_error + dict" where
  "new_record uuid employee attendance =
     (case getitem employee ''name'' of
        Inl e \<Rightarrow> Inl e
      | Inr name \<Rightarrow>
          (case getitem employee ''departmentName'' of
             Inl e \<Rightarrow> Inl e
           | Inr department \<Rightarrow>
               Inr [(''id'', JStr uuid),
                    (''employeeName'', name),
                    (''employeeId'', JStr (AttendanceCreate_employeeId attendance)),
                    (''department'', department),
                    (''date'', JStr (AttendanceCreate_date attendance)),
                    (''checkIn'', opt_str (AttendanceCreate_checkIn attendance)),
                    (''checkOut'', opt_str (AttendanceCreate_checkOut attendance)),
                    (''status'', JStr (AttendanceCreate_status attendance)),
                    (''workHours'',
                      JStr (calculate_work_hours (AttendanceCreate_checkIn attendance)
                              (AttendanceCreate_checkOut attendance))),
                    (''location'', opt_dict (AttendanceCreate_location attendance))]))"

text \<open>The \<open>if existing_record: ... else: ...\<close> of \<open>mark_attendance\<close>.\<close>

definition upsert :: "string \<Rightarrow> dict \<Rightarrow> AttendanceCreate \<Rightarrow> dict option \<Rightarrow> dict list
    \<Rightarrow> py_error + dict list" where
  "upsert uuid employee attendance existing attendance_records =
     (if (case existing of None \<Rightarrow> False | Some existing_record \<Rightarrow> truthy existing_record)
      then
        (case existing of
           None \<Rightarrow> Inr attendance_records
         | Some existing_record \<Rightarrow>
             update_existing existing_record (attendance_update attendance) attendance_records)
      else
        (case new_record uuid employee attendance of
           Inl e \<Rightarrow> Inl e
         | Inr r \<Rightarrow> Inr (attendance_records @ [r])))"

definition mark_attendance :: "world \<Rightarrow> string \<Rightarrow> AttendanceCreate \<Rightarrow> APIResponse outcome" where
  "mark_attendance w uuid attendance =
     or_raise (load_json_data w ATTENDANCE_FILE) w (\<lambda>attendance_records.
     or_raise (load_json_data w EMPLOYEES_FILE) w (\<lambda>employees.
     or_raise (next_field_eq ''id'' (JStr (AttendanceCreate_employeeId attendance)) employees) w
       (\<lambda>found.
         case found of
           None \<Rightarrow> (Inl (HTTPException 404 ''Ishchi topilmadi''), w)
         | Some employee \<Rightarrow>
             if \<not> truthy employee then (Inl (HTTPException 404 ''Ishchi topilmadi''), w)
             else
               or_raise (next_two_fields_eq
                           ''employeeId'' (JStr (AttendanceCreate_employeeId attendance))
                           ''date'' (JStr (AttendanceCreate_date attendance))
                           attendance_records) w
                 (\<lambda>existing.
                   or_raise (upsert uuid employee attendance existing attendance_records) w
                     (\<lambda>attendance_records.
                       (Inr \<lparr>success = True, data = JNull,
                             message = Some ''Davomat belgilandi''\<rparr>,
                        save_json_data w ATTENDANCE_FILE attendance_records))))))"

subsection \<open>Statistics\<close>

text \<open>
  The percentages are Python floats; here they are exact rationals, and \<open>round(x, 1)\<close>
  rounds the exact value to one decimal, ties to even. The chart series and insights
  that \<open>get_statistics\<close> returns as constants are left out of the result.
\<close>

definition py_round1 :: "rat \<Rightarrow> rat" where
  "py_round1 x =
     (let y = x * 10;
          f = \<lfloor>y\<rfloor>;
          r = y - of_int f
      in of_int (if r < 1 / 2 then f else if r > 1 / 2 then f + 1
                 else if even f then f else f + 1) / 10)"

definition colors :: "string list" where
  "colors = [''#8b5cf6'', ''#06b6d4'', ''#10b981'', ''#f59e0b'', ''#ef4444'', ''#8b5a2b'']"

fun department_chart_data :: "nat \<Rightarrow> dict list \<Rightarrow> py_error + dict list" where
  "department_chart_data i [] = Inr []"
| "department_chart_data i (dept # ds) =
     (case getitem dept ''name'' of
        Inl e \<Rightarrow> Inl e
      | Inr name \<Rightarrow>
          (case getitem dept ''districtId'' of
             Inl e \<Rightarrow> Inl e
           | Inr district_id \<Rightarrow>
               (case department_chart_data (Suc i) ds of
                  Inl e \<Rightarrow> Inl e
                | Inr r \<Rightarrow>
                    Inr ([(''name'', name),
                          (''value'', dict_get dept ''employeeCount'' (JInt 0)),
                          (''color'', JStr (colors ! (i mod length colors))),
                          (''districtId'', district_id)] # r))))"

record Statistics =
  overview_totalEmployees :: int
  overview_activeEmployees :: int
  overview_totalDepartments :: int
  overview_totalDistricts :: int
  attendance_total :: int
  attendance_present :: int
  attendance_absent :: int
  attendance_late :: int
  attendance_percentage :: rat
  trends_attendance_current :: rat
  trends_late_current :: rat
  departmentData :: "dict list"

definition percentage_of :: "int \<Rightarrow> int \<Rightarrow> rat" where
  "percentage_of n total_employees =
     (if total_employees > 0 then of_int n / of_int (max total_employees 1) * 100 else 0)"

definition get_statistics :: "world \<Rightarrow> string \<Rightarrow> Statistics outcome" where
  "get_statistics w today =
     or_raise (load_json_data w EMPLOYEES_FILE) w (\<lambda>employees.
     or_raise (load_json_data w DEPARTMENTS_FILE) w (\<lambda>departments.
     or_raise (load_json_data w DISTRICTS_FILE) w (\<lambda>districts.
     or_raise (load_json_data w ATTENDANCE_FILE) w (\<lambda>attendance_records.
     or_raise (filter_field_eq ''status'' (JStr ''active'') employees) w (\<lambda>active.
     or_raise (filter_field_eq ''date'' (JStr today) attendance_records) w (\<lambda>today_attendance.
     or_raise (filter_field_eq ''status'' (JStr ''present'') today_attendance) w (\<lambda>present.
     or_raise (filter_field_eq ''status'' (JStr ''late'') today_attendance) w (\<lambda>late.
     or_raise (filter_field_eq ''status'' (JStr ''absent'') today_attendance) w (\<lambda>absent.
     or_raise (department_chart_data 0 departments) w (\<lambda>chart.
       (let total_employees = int (length employees);
            present_today = int (length present);
            late_today = int (length late);
            attendance_percentage = percentage_of (present_today + late_today) total_employees;
            late_percentage = percentage_of late_today total_employees
        in (Inr \<lparr>overview_totalEmployees = total_employees,
                 overview_activeEmployees = int (length active),
                 overview_totalDepartments = int (length departments),
                 overview_totalDistricts = int (length districts),
                 attendance_total = total_employees,
                 attendance_present = present_today,
                 attendance_absent = int (length absent),
                 attendance_late = late_today,
                 attendance_percentage = py_round1 attendance_percentage,
                 trends_attendance_current = py_round1 attendance_percentage,
                 trends_late_current = py_round1 late_percentage,
                 departmentData = chart\<rparr>, w))))))))))))"

subsection \<open>Routing of the mutating requests\<close>

datatype request =
    POST_districts District
  | PUT_districts string dict
  | DELETE_districts string
  | POST_departments Department
  | PUT_departments string dict
  | DELETE_departments string
  | POST_employees Employee
  | PUT_employees string dict
  | DELETE_employees string
  | POST_attendance AttendanceCreate

fun route :: "world \<Rightarrow> string \<Rightarrow> string \<Rightarrow> request \<Rightarrow> APIResponse outcome" where
  "route w uuid now (POST_districts district) = create_district w uuid now district"
| "route w uuid now (PUT_districts district_id district_data) =
     update_district w district_id district_data"
| "route w uuid now (DELETE_districts district_id) = delete_district w district_id"
| "route w uuid now (POST_departments department) = create_department w uuid now department"
| "route w uuid now (PUT_departments department_id department_data) =
     update_department w department_id department_data"
| "route w uuid now (DELETE_departments department_id) = delete_department w department_id"
| "route w uuid now (POST_employees employee) = create_employee w uuid now employee"
| "route w uuid now (PUT_employees employee_id employee_data) =
     update_employee w employee_id employee_data"
| "route w uuid now (DELETE_employees employee_id) = delete_employee w employee_id"
| "route w uuid now (POST_attendance attendance) = mark_attendance w uuid attendance"

section \<open>The work-hours rule as the specification words it\<close>

text \<open>
  A time is one or two digits, a colon, and one or two digits, with the hour at most 23
  and the minute at most 59. The result is "0:00" when an input is absent, when one
  does not parse, or when check-out is not after check-in; otherwise the duration, less
  one hour when it exceeds six hours, with the hours unpadded and the minutes on two
  digits.
\<close>

definition is_field :: "string \<Rightarrow> bool" where
  "is_field ds = (ds \<noteq> [] \<and> length ds \<le> 2 \<and> list_all (\<lambda>c. digit_of c \<noteq> None) ds)"

definition field_val :: "string \<Rightarrow> int" where
  "field_val ds = foldl (\<lambda>a c. 10 * a + (case digit_of c of None \<Rightarrow> 0 | Some n \<Rightarrow> n)) 0 ds"

definition parse_HH_MM :: "string \<Rightarrow> (int \<times> int) option" where
  "parse_HH_MM s =
     (let hs = takeWhile (\<lambda>c. c \<noteq> CHR '':'') s;
          ms = drop (Suc (length hs)) s
      in if length hs < length s \<and> is_field hs \<and> is_field ms
            \<and> field_val hs \<le> 23 \<and> field_val ms \<le> 59
         then Some (field_val hs, field_val ms) else None)"

definition render_H_MM :: "int \<Rightarrow> string" where
  "render_H_MM d =
     py_str (d div 60) @ '':'' @
     [''0123456789'' ! nat (d mod 60 div 10), ''0123456789'' ! nat (d mod 60 mod 10)]"

definition spec_hours :: "int \<times> int \<Rightarrow> int \<times> int \<Rightarrow> string" where
  "spec_hours a b =
     (let t1 = 60 * fst a + snd a; t2 = 60 * fst b + snd b
      in if t2 > t1
         then render_H_MM (if t2 - t1 > 6 * 60 then t2 - t1 - 60 else t2 - t1)
         else ''0:00'')"

definition work_hours_spec :: "string option \<Rightarrow> string option \<Rightarrow> string" where
  "work_hours_spec checkIn checkOut =
     (case (checkIn, checkOut) of
        (Some a, Some b) \<Rightarrow>
          (case (parse_HH_MM a, parse_HH_MM b) of
             (Some t1, Some t2) \<Rightarrow> spec_hours t1 t2
           | _ \<Rightarrow> ''0:00'')
      | _ \<Rightarrow> ''0:00'')"

text \<open>What \<open>calculate_work_hours\<close> computes once both times are parsed.\<close>

definition code_hours :: "int \<times> int \<Rightarrow> int \<times> int \<Rightarrow> string" where
  "code_hours check_in_time check_out_time =
     (if datetime_gt check_out_time check_in_time then
        (let diff = datetime_sub check_out_time check_in_time;
             diff = (if td_seconds diff > 6 * 3600 then diff - 3600 else diff);
             hours = td_seconds diff div 3600;
             minutes = (td_seconds diff mod 3600) div 60
         in py_str hours @ '':'' @ fmt_02d minutes)
      else ''0:00'')"

section \<open>Vocabulary for the statements\<close>

text \<open>The collection a handler sees when it loads a file.\<close>

definition records :: "world \<Rightarrow> collection \<Rightarrow> dict list" where
  "records w p = (case files w p of Stored xs \<Rightarrow> xs | _ \<Rightarrow> [])"

definition has_field :: "string \<Rightarrow> dict \<Rightarrow> bool" where
  "has_field k d = (map_of d k \<noteq> None)"

definition field_is :: "string \<Rightarrow> json \<Rightarrow> dict \<Rightarrow> bool" where
  "field_is k v d = (map_of d k = Some v)"

text \<open>A world whose four files hold the given collections, before any write.\<close>

definition world_of :: "dict list \<Rightarrow> dict list \<Rightarrow> dict list \<Rightarrow> dict list \<Rightarrow> world" where
  "world_of districts departments employees attendance =
     \<lparr>files = (\<lambda>p. case p of
                  DISTRICTS_FILE \<Rightarrow> Stored districts
                | DEPARTMENTS_FILE \<Rightarrow> Stored departments
                | EMPLOYEES_FILE \<Rightarrow> Stored employees
                | ATTENDANCE_FILE \<Rightarrow> Stored attendance),
      writes = []\<rparr>"

text \<open>Small collections for the concrete checks.\<close>

definition example_districts :: "dict list" where
  "example_districts =
     [ [(''id'', JStr ''1''), (''name'', JStr ''Toshkent tumani''), (''code'', JStr ''TSH001'')],
      [(''id'', JStr ''2''), (''name'', JStr ''Samarqand tumani''), (''code'', JStr ''SMQ001'')] ]"

definition example_departments :: "dict list" where
  "example_departments =
     [ [(''id'', JStr ''7''), (''name'', JStr ''IT''), (''departmentNumber'', JStr ''IT-001''),
       (''districtId'', JStr ''1''), (''districtName'', JStr ''Toshkent tumani''),
       (''employeeCount'', JInt 3)] ]"

text \<open>The record \<open>create_department\<close> stores, and its duplicate test on one record.\<close>

definition stored_department :: "string \<Rightarrow> string \<Rightarrow> json \<Rightarrow> Department \<Rightarrow> dict" where
  "stored_department uuid now district_name department =
     [(''id'', JStr uuid),
      (''name'', JStr (Department_name department)),
      (''departmentNumber'', JStr (Department_departmentNumber department)),
      (''districtId'', JStr (Department_districtId department)),
      (''districtName'', district_name),
      (''manager'', JStr (Department_manager department)),
      (''employeeCount'', opt_int (Department_employeeCount department)),
      (''description'', opt_str (Department_description department)),
      (''createdAt'', JStr now)]"

definition same_number_and_district :: "Department \<Rightarrow> dict \<Rightarrow> bool" where
  "same_number_and_district department d =
     (field_is ''departmentNumber'' (JStr (Department_departmentNumber department)) d
      \<and> field_is ''districtId'' (JStr (Department_districtId department)) d)"

definition example_department :: Department where
  "example_department =
     \<lparr>Department_id = None, Department_name = ''IT'',
      Department_departmentNumber = ''IT-001'', Department_districtId = ''1'',
      Department_districtName = Some [], Department_manager = ''Karimov Sardor'',
      Department_employeeCount = Some 5, Department_description = Some [],
      Department_createdAt = None\<rparr>"

text \<open>The record \<open>create_employee\<close> stores.\<close>

definition stored_employee :: "string \<Rightarrow> string \<Rightarrow> json \<Rightarrow> json \<Rightarrow> json \<Rightarrow> Employee \<Rightarrow> dict" where
  "stored_employee uuid now department_name department_number district_name e =
     [(''id'', JStr uuid),
      (''name'', JStr (Employee_name e)),
      (''phone'', JStr (Employee_phone e)),
      (''photo'', opt_str (Employee_photo e)),
      (''position'', JStr (Employee_position e)),
      (''departmentId'', JStr (Employee_departmentId e)),
      (''departmentName'', department_name),
      (''departmentNumber'', department_number),
      (''districtName'', district_name),
      (''email'', opt_str (Employee_email e)),
      (''status'', JStr (Employee_status e)),
      (''createdAt'', JStr now)]"

text \<open>No record of the list has the given \<open>id\<close>, and each has one.\<close>

definition other_ids :: "string \<Rightarrow> dict list \<Rightarrow> bool" where
  "other_ids i ds = list_all (\<lambda>d. has_field ''id'' d \<and> \<not> field_is ''id'' (JStr i) d) ds"

definition example_employee :: Employee where
  "example_employee =
     \<lparr>Employee_id = None, Employee_name = ''Toshmatov Oybek'',
      Employee_phone = ''+998901234569'', Employee_photo = Some [],
      Employee_position = ''IT dasturchi'', Employee_departmentId = ''u1'',
      Employee_departmentName = Some [], Employee_departmentNumber = Some [],
      Employee_districtName = Some [], Employee_email = Some [],
      Employee_status = ''active'', Employee_createdAt = None\<rparr>"

text \<open>
  A department created with \<open>"employeeCount": null\<close> (the model's field is
  \<open>Optional[int]\<close>), then an employee created in it.
\<close>

definition null_count_world :: world where
  "null_count_world =
     snd (create_department (world_of example_districts [] [] []) ''u1'' ''t''
            (example_department\<lparr>Department_employeeCount := None\<rparr>))"

text \<open>The three \<open>PUT\<close> routes: file, handler, message of success, detail of the 404.\<close>

definition put_routes :: "(collection \<times> (world \<Rightarrow> string \<Rightarrow> dict \<Rightarrow> APIResponse outcome)
    \<times> string \<times> string) list" where
  "put_routes =
     [(DISTRICTS_FILE, update_district, ''Tuman yangilandi'', ''Tuman topilmadi''),
      (DEPARTMENTS_FILE, update_department, ''Bo'lim yangilandi'', ''Bo'lim topilmadi''),
      (EMPLOYEES_FILE, update_employee, ''Ishchi ma'lumotlari yangilandi'',
       ''Ishchi topilmadi'')]"

text \<open>Two districts, then two \<open>PUT\<close> requests that change an \<open>id\<close>.\<close>

definition renamed_once :: world where
  "renamed_once =
     snd (update_district (world_of example_districts [] [] []) ''1'' [(''id'', JStr ''2'')])"

definition renamed_twice :: world where
  "renamed_twice = snd (update_district renamed_once ''2'' [(''id'', JStr ''3'')])"

text \<open>
  Attendance: the key of a record, the invariant of one record per employee and date,
  the records of a given employee and date, and what a record carries after a request.
  A consistent collection has records with a string \<open>id\<close>, an \<open>employeeId\<close> and a \<open>date\<close>,
  pairwise distinct ids, and at most one record per key.
\<close>

definition pair_key :: "dict \<Rightarrow> json option \<times> json option" where
  "pair_key r = (map_of r ''employeeId'', map_of r ''date'')"

definition one_per_pair :: "dict list \<Rightarrow> bool" where
  "one_per_pair xs = distinct (map pair_key xs)"

definition matches :: "string \<Rightarrow> string \<Rightarrow> dict \<Rightarrow> bool" where
  "matches e D r = (field_is ''employeeId'' (JStr e) r \<and> field_is ''date'' (JStr D) r)"

definition str_field :: "string \<Rightarrow> dict \<Rightarrow> bool" where
  "str_field k r = (case map_of r k of Some (JStr s) \<Rightarrow> True | _ \<Rightarrow> False)"

definition attendance_wf :: "dict \<Rightarrow> bool" where
  "attendance_wf r = (str_field ''id'' r \<and> has_field ''employeeId'' r \<and> has_field ''date'' r)"

definition unique_ids :: "dict list \<Rightarrow> bool" where
  "unique_ids xs = distinct (map (\<lambda>r. map_of r ''id'') xs)"

definition carries :: "AttendanceCreate \<Rightarrow> dict \<Rightarrow> bool" where
  "carries a r =
     (field_is ''checkIn'' (opt_str (AttendanceCreate_checkIn a)) r
      \<and> field_is ''checkOut'' (opt_str (AttendanceCreate_checkOut a)) r
      \<and> field_is ''status'' (JStr (AttendanceCreate_status a)) r
      \<and> field_is ''location'' (opt_dict (AttendanceCreate_location a)) r
      \<and> field_is ''workHours''
           (JStr (calculate_work_hours (AttendanceCreate_checkIn a)
                    (AttendanceCreate_checkOut a))) r)"

definition marked :: APIResponse where
  "marked = \<lparr>success = True, data = JNull, message = Some ''Davomat belgilandi''\<rparr>"

definition consistent :: "dict list \<Rightarrow> bool" where
  "consistent xs = (list_all attendance_wf xs \<and> unique_ids xs \<and> one_per_pair xs)"

definition example_employees :: "dict list" where
  "example_employees =
     [ [(''id'', JStr ''5''), (''name'', JStr ''Aliyev Vali''), (''phone'', JStr ''+998901234571''),
       (''departmentId'', JStr ''7''), (''departmentName'', JStr ''IT''),
       (''status'', JStr ''active'')] ]"

definition shared_id_attendance :: "dict list" where
  "shared_id_attendance =
     [ [(''id'', JStr ''a1''), (''employeeName'', JStr ''Karimov Sardor''),
       (''employeeId'', JStr ''1''), (''date'', JStr ''2024-05-01''),
       (''checkIn'', JStr ''08:00''), (''checkOut'', JNull), (''status'', JStr ''present'')],
      [(''id'', JStr ''a1''), (''employeeName'', JStr ''Aliyev Vali''),
       (''employeeId'', JStr ''5''), (''date'', JStr ''2024-05-01''),
       (''checkIn'', JStr ''08:00''), (''checkOut'', JNull), (''status'', JStr ''present'')] ]"

definition first_mark :: AttendanceCreate where
  "first_mark =
     \<lparr>AttendanceCreate_employeeId = ''5'', AttendanceCreate_date = ''2024-05-01'',
      AttendanceCreate_checkIn = Some ''09:00'', AttendanceCreate_checkOut = Some ''18:00'',
      AttendanceCreate_status = ''present'', AttendanceCreate_location = None\<rparr>"

definition second_mark :: AttendanceCreate where
  "second_mark =
     \<lparr>AttendanceCreate_employeeId = ''5'', AttendanceCreate_date = ''2024-05-01'',
      AttendanceCreate_checkIn = Some ''10:00'', AttendanceCreate_checkOut = Some ''12:00'',
      AttendanceCreate_status = ''late'', AttendanceCreate_location = None\<rparr>"

definition marked_twice :: "world \<Rightarrow> world" where
  "marked_twice w = snd (mark_attendance (snd (mark_attendance w ''u1'' first_mark)) ''u2'' second_mark)"

text \<open>
  Statistics: the number of today's records with a given status, a sequence of requests
  run from a world, and the four numbers of a statistics result that the range of the
  percentage is about.
\<close>

definition count_status :: "string \<Rightarrow> string \<Rightarrow> dict list \<Rightarrow> int" where
  "count_status today s attendance_records =
     int (length (filter (field_is ''status'' (JStr s))
                    (filter (field_is ''date'' (JStr today)) attendance_records)))"

fun run :: "world \<Rightarrow> (string \<times> string \<times> request) list \<Rightarrow> world" where
  "run w [] = w"
| "run w ((uuid, now, r) # rs) = run (snd (route w uuid now r)) rs"

definition example_district :: District where
  "example_district =
     \<lparr>District_id = None, District_name = ''Toshkent tumani'', District_code = ''TSH001'',
      District_description = Some [], District_createdAt = None\<rparr>"

definition two_marked_one_deleted :: "(string \<times> string \<times> request) list" where
  "two_marked_one_deleted =
     [(''1'', ''t'', POST_districts example_district),
      (''u1'', ''t'', POST_departments (example_department\<lparr>Department_employeeCount := Some 0\<rparr>)),
      (''5'', ''t'', POST_employees example_employee),
      (''6'', ''t'', POST_employees (example_employee\<lparr>Employee_phone := ''+998901234570''\<rparr>)),
      (''a1'', ''t'', POST_attendance first_mark),
      (''a2'', ''t'', POST_attendance
         (second_mark\<lparr>AttendanceCreate_employeeId := ''6''\<rparr>)),
      (''x'', ''t'', DELETE_employees ''6'')]"

definition summary :: "Statistics outcome \<Rightarrow> py_error + (int \<times> int \<times> int \<times> rat)" where
  "summary r =
     (case fst r of
        Inl e \<Rightarrow> Inl e
      | Inr st \<Rightarrow> Inr (overview_totalEmployees st, attendance_present st, attendance_late st,
                        attendance_percentage st))"

section \<open>Work hours: the code computes the specified rule\<close>

lemma digit_of_range: "digit_of c = Some n \<Longrightarrow> 0 \<le> n \<and> n \<le> 9"
  by (auto simp: digit_of_def split: if_splits)

lemma digit_of_colon [simp]: "digit_of CHR '':'' = None"
  by (simp add: digit_of_def)

lemma digit_not_colon: "digit_of c = Some n \<Longrightarrow> c \<noteq> CHR '':''"
  by auto

lemmas re_defs = re_HM_def re_H_def re_M_def re_seq_def re_char_def re_colon_def strptime_HM_def
  parse_HH_MM_def is_field_def field_val_def

lemma strptime_HM_parse_len0: "strptime_HM [] = (case parse_HH_MM [] of None \<Rightarrow> Inl ValueError | Some t \<Rightarrow> Inr t)"
  by (simp add: re_defs)

lemma strptime_HM_parse_len1: "strptime_HM [a] = (case parse_HH_MM [a] of None \<Rightarrow> Inl ValueError | Some t \<Rightarrow> Inr t)"
  by (auto simp: re_defs Let_def split: option.splits dest: digit_of_range)

lemma strptime_HM_parse_len2: "strptime_HM [a, b] = (case parse_HH_MM [a, b] of None \<Rightarrow> Inl ValueError | Some t \<Rightarrow> Inr t)"
  by (auto simp: re_defs Let_def split: option.splits dest: digit_of_range)

lemma strptime_HM_parse_len3: "strptime_HM [a, b, c] = (case parse_HH_MM [a, b, c] of None \<Rightarrow> Inl ValueError | Some t \<Rightarrow> Inr t)"
  by (auto simp: re_defs Let_def split: option.splits dest: digit_of_range)

lemma strptime_HM_parse_len4: "strptime_HM [a, b, c, d] = (case parse_HH_MM [a, b, c, d] of None \<Rightarrow> Inl ValueError | Some t \<Rightarrow> Inr t)"
  by (auto simp: re_defs Let_def split: option.splits dest: digit_of_range)

lemma strptime_HM_parse_len5: "strptime_HM [a, b, c, d, e] = (case parse_HH_MM [a, b, c, d, e] of None \<Rightarrow> Inl ValueError | Some t \<Rightarrow> Inr t)"
  by (auto simp: re_defs Let_def split: option.splits dest: digit_of_range)

lemma strptime_HM_parse_len6: "strptime_HM (a # b # c # d # e # f # r) = (case parse_HH_MM (a # b # c # d # e # f # r) of None \<Rightarrow> Inl ValueError | Some t \<Rightarrow> Inr t)"
  by (auto simp: re_defs Let_def split: option.splits dest: digit_of_range)

lemma strptime_HM_parse:
  "strptime_HM s = (case parse_HH_MM s of None \<Rightarrow> Inl ValueError | Some t \<Rightarrow> Inr t)"
proof -
  consider "s = []" | a where "s = [a]" | a b where "s = [a, b]" | a b c where "s = [a, b, c]"
    | a b c d where "s = [a, b, c, d]" | a b c d e where "s = [a, b, c, d, e]"
    | a b c d e f r where "s = a # b # c # d # e # f # r"
    by (metis list.exhaust)
  then show ?thesis
    by cases (simp_all only: strptime_HM_parse_len0 strptime_HM_parse_len1 strptime_HM_parse_len2 strptime_HM_parse_len3 strptime_HM_parse_len4 strptime_HM_parse_len5 strptime_HM_parse_len6)
qed

lemma parse_HH_MM_Nil [simp]: "parse_HH_MM [] = None"
  by (simp add: parse_HH_MM_def is_field_def)

lemma re_char_range: "(n, r) \<in> set (re_char ok s) \<Longrightarrow> 0 \<le> n \<and> n \<le> 9 \<and> ok n"
  by (auto simp: re_char_def split: list.splits option.splits if_splits
      dest: digit_of_range [OF sym])

lemma re_seq_elim:
  "(n, r) \<in> set (re_seq ok1 ok2 s) \<Longrightarrow>
     \<exists>a b. n = 10 * a + b \<and> 0 \<le> a \<and> a \<le> 9 \<and> ok1 a \<and> 0 \<le> b \<and> b \<le> 9 \<and> ok2 b"
  unfolding re_seq_def by (fastforce dest: re_char_range)

lemma re_H_range: "(h, r) \<in> set (re_H s) \<Longrightarrow> 0 \<le> h \<and> h \<le> 23"
  unfolding re_H_def by (auto dest!: re_seq_elim re_char_range)

lemma re_M_range: "(m, r) \<in> set (re_M s) \<Longrightarrow> 0 \<le> m \<and> m \<le> 59"
  unfolding re_M_def by (auto dest!: re_seq_elim re_char_range)

lemma re_HM_range: "(h, m, r) \<in> set (re_HM s) \<Longrightarrow> 0 \<le> h \<and> h \<le> 23 \<and> 0 \<le> m \<and> m \<le> 59"
  unfolding re_HM_def by (auto dest!: re_H_range re_M_range)

lemma strptime_HM_range:
  assumes "strptime_HM s = Inr (h, m)"
  shows "0 \<le> h \<and> h \<le> 23 \<and> 0 \<le> m \<and> m \<le> 59"
proof -
  from assms obtain r rest where "re_HM s = (h, m, r) # rest"
    by (auto simp: strptime_HM_def split: list.splits if_splits)
  then have "(h, m, r) \<in> set (re_HM s)" by simp
  then show ?thesis by (rule re_HM_range)
qed

lemma parse_HH_MM_range:
  "parse_HH_MM s = Some (h, m) \<Longrightarrow> 0 \<le> h \<and> h \<le> 23 \<and> 0 \<le> m \<and> m \<le> 59"
  using strptime_HM_range [of s h m] by (simp add: strptime_HM_parse)

lemma str_nat_small: "n < 10 \<Longrightarrow> str_nat n = [''0123456789'' ! n]"
  by (subst str_nat.simps) simp

lemma str_nat_two:
  assumes "10 \<le> n" "n < 100"
  shows "str_nat n = [''0123456789'' ! (n div 10), ''0123456789'' ! (n mod 10)]"
proof -
  have "str_nat n = str_nat (n div 10) @ [''0123456789'' ! (n mod 10)]"
    using assms by (subst str_nat.simps) simp
  moreover have "n div 10 < 10" using assms by simp
  ultimately show ?thesis by (simp add: str_nat_small)
qed

lemma fmt_02d_two_digits:
  assumes "0 \<le> m" "m < 60"
  shows "fmt_02d m = [''0123456789'' ! nat (m div 10), ''0123456789'' ! nat (m mod 10)]"
proof (cases "m < 10")
  case True
  with assms have "nat m < 10" by simp
  then have "str_nat (nat m) = [''0123456789'' ! nat m]" by (rule str_nat_small)
  with assms True show ?thesis by (simp add: fmt_02d_def)
next
  case False
  with assms have a: "10 \<le> nat m" "nat m < 100" by simp_all
  have "nat m div 10 = nat (m div 10)" "nat m mod 10 = nat (m mod 10)"
    using assms by (simp_all add: nat_div_distrib nat_mod_distrib)
  with str_nat_two [OF a] assms show ?thesis by (simp add: fmt_02d_def)
qed

lemma render_seconds:
  assumes "0 < d" "d < 1440"
  shows "py_str (td_seconds (60 * d) div 3600) @ '':'' @ fmt_02d ((td_seconds (60 * d) mod 3600) div 60)
         = render_H_MM d"
proof -
  have t: "td_seconds (60 * d) = 60 * d"
    using assms by (simp add: td_seconds_def)
  have h: "(60 * d) div 3600 = d div 60"
    using div_mult_mult1 [of 60 d 60] by simp
  have "(60 * d) mod 3600 = 60 * (d mod 60)"
    using mult_mod_right [of 60 d 60] by simp
  then have m: "((60 * d) mod 3600) div 60 = d mod 60" by simp
  have r: "0 \<le> d mod 60" "d mod 60 < 60" by simp_all
  show ?thesis
    unfolding t h m render_H_MM_def using fmt_02d_two_digits [OF r] by simp
qed

lemma work_hours_times:
  assumes a: "0 \<le> h1 \<and> h1 \<le> 23 \<and> 0 \<le> m1 \<and> m1 \<le> 59"
      and b: "0 \<le> h2 \<and> h2 \<le> 23 \<and> 0 \<le> m2 \<and> m2 \<le> (59::int)"
  shows "code_hours (h1, m1) (h2, m2) = spec_hours (h1, m1) (h2, m2)"
proof -
  define d where "d = (60 * h2 + m2) - (60 * h1 + m1)"
  have gt: "datetime_gt (h2, m2) (h1, m1) \<longleftrightarrow> 0 < d"
    using a b unfolding datetime_gt_def d_def by auto
  have sub: "datetime_sub (h2, m2) (h1, m1) = 60 * d"
    unfolding datetime_sub_def d_def by simp
  have bound: "d < 1440" using a b unfolding d_def by linarith
  have spec: "spec_hours (h1, m1) (h2, m2) =
      (if 0 < d then render_H_MM (if d > 360 then d - 60 else d) else ''0:00'')"
    unfolding spec_hours_def d_def Let_def by simp
  have code: "code_hours (h1, m1) (h2, m2) =
      (if 0 < d then
         (if td_seconds (60 * d) > 21600
          then py_str (td_seconds (60 * d - 3600) div 3600) @ '':'' @
               fmt_02d ((td_seconds (60 * d - 3600) mod 3600) div 60)
          else py_str (td_seconds (60 * d) div 3600) @ '':'' @
               fmt_02d ((td_seconds (60 * d) mod 3600) div 60))
       else ''0:00'')"
    unfolding code_hours_def gt sub Let_def by simp
  show ?thesis
  proof (cases "0 < d")
    case False
    then show ?thesis unfolding spec code by simp
  next
    case True
    have s: "td_seconds (60 * d) = 60 * d" using True bound by (simp add: td_seconds_def)
    show ?thesis
    proof (cases "d > 360")
      case big: True
      then have "0 < d - 60" "d - 60 < 1440" using bound by simp_all
      from render_seconds [OF this] have "py_str (td_seconds (60 * d - 3600) div 3600) @ '':'' @
          fmt_02d ((td_seconds (60 * d - 3600) mod 3600) div 60) = render_H_MM (d - 60)"
        by (simp add: algebra_simps)
      with True big show ?thesis unfolding spec code s by simp
    next
      case False
      with render_seconds [OF True bound] True show ?thesis unfolding spec code s by simp
    qed
  qed
qed

lemma calculate_work_hours_parsed:
  "calculate_work_hours check_in check_out =
     (case (check_in, check_out) of
        (Some a, Some b) \<Rightarrow>
          (case (parse_HH_MM a, parse_HH_MM b) of
             (Some t1, Some t2) \<Rightarrow> code_hours t1 t2
           | _ \<Rightarrow> ''0:00'')
      | _ \<Rightarrow> ''0:00'')"
  by (auto simp: calculate_work_hours_def strptime_HM_parse code_hours_def
      split: option.splits)

lemma calculate_work_hours_eq_spec:
  "calculate_work_hours check_in check_out = work_hours_spec check_in check_out"
proof -
  have "code_hours t1 t2 = spec_hours t1 t2"
    if "parse_HH_MM a = Some t1" "parse_HH_MM b = Some t2" for a b t1 t2
  proof -
    obtain h1 m1 h2 m2 where t: "t1 = (h1, m1)" "t2 = (h2, m2)"
      by (cases t1, cases t2) auto
    from that t have "0 \<le> h1 \<and> h1 \<le> 23 \<and> 0 \<le> m1 \<and> m1 \<le> 59"
      "0 \<le> h2 \<and> h2 \<le> 23 \<and> 0 \<le> m2 \<and> m2 \<le> 59"
      by (auto dest: parse_HH_MM_range)
    then show ?thesis unfolding t by (rule work_hours_times)
  qed
  then show ?thesis
    unfolding calculate_work_hours_parsed work_hours_spec_def
    by (auto split: option.splits)
qed



section \<open>Storage and comprehensions\<close>

lemma load_json_data_records [simp]: "load_json_data w p = Inr (records w p)"
  by (simp add: load_json_data_def os_path_exists_def json_load_def records_def
      split: json_file.splits)

lemma records_save [simp]:
  "records (save_json_data w p xs) q = (if q = p then xs else records w q)"
  by (simp add: records_def save_json_data_def)

lemma records_world_of [simp]:
  "records (world_of ds dp es att) DISTRICTS_FILE = ds"
  "records (world_of ds dp es att) DEPARTMENTS_FILE = dp"
  "records (world_of ds dp es att) EMPLOYEES_FILE = es"
  "records (world_of ds dp es att) ATTENDANCE_FILE = att"
  by (simp_all add: records_def world_of_def)

lemma writes_save [simp]: "writes (save_json_data w p xs) = writes w @ [p]"
  by (simp add: save_json_data_def)

lemma writes_world_of [simp]: "writes (world_of ds dp es att) = []"
  by (simp add: world_of_def)

lemma or_raise_Inr [simp]: "or_raise (Inr v) w k = k v"
  by (simp add: or_raise_def)

lemma or_raise_Inl [simp]: "or_raise (Inl e) w k = (Inl e, w)"
  by (simp add: or_raise_def)

lemma py_eq_JStr [simp]: "py_eq x (JStr s) = (x = JStr s)"
  by (cases x) auto

lemma getitem_has_field: "has_field k d \<Longrightarrow> \<exists>v. getitem d k = Inr v \<and> map_of d k = Some v"
  by (auto simp: has_field_def getitem_def)

lemma filter_field_eq_wf:
  "list_all (has_field k) ds \<Longrightarrow>
     filter_field_eq k (JStr s) ds = Inr (filter (field_is k (JStr s)) ds)"
  by (induction ds) (auto simp: has_field_def field_is_def getitem_def)

lemma filter_field_ne_wf:
  "list_all (has_field k) ds \<Longrightarrow>
     filter_field_ne k (JStr s) ds = Inr (filter (\<lambda>d. \<not> field_is k (JStr s) d) ds)"
  by (induction ds) (auto simp: has_field_def field_is_def getitem_def)

lemma any_field_eq_wf:
  "list_all (has_field k) ds \<Longrightarrow>
     any_field_eq k (JStr s) ds = Inr (list_ex (field_is k (JStr s)) ds)"
  by (induction ds) (auto simp: has_field_def field_is_def getitem_def)



section \<open>Reading attendance by date\<close>

text \<open>
  C7. For every stored attendance collection (each record with a \<open>date\<close> field) and every
  query string \<open>D\<close>, \<open>GET /attendance?date=D\<close> returns exactly the records whose \<open>date\<close>
  is the string \<open>D\<close>, in storage order, and leaves the world as it was.
\<close>

theorem get_attendance_exact:
  assumes "list_all (has_field ''date'') (records w ATTENDANCE_FILE)"
  shows "get_attendance w D =
           (Inr \<lparr>success = True,
                 data = JArr (map JObj (filter (field_is ''date'' (JStr D))
                                           (records w ATTENDANCE_FILE))),
                 message = None\<rparr>, w)"
  using assms by (simp add: get_attendance_def filter_field_eq_wf)

theorem get_attendance_exact_witness:
  "list_all (has_field ''date'')
     (records (world_of [] [] []
        [ [(''id'', JStr ''1''), (''date'', JStr ''2024-05-01'')],
         [(''id'', JStr ''2''), (''date'', JStr ''2024-05-010'')],
         [(''id'', JStr ''3''), (''date'', JStr ''2024-05-01'')] ]) ATTENDANCE_FILE)
   \<and> fst (get_attendance (world_of [] [] []
        [ [(''id'', JStr ''1''), (''date'', JStr ''2024-05-01'')],
         [(''id'', JStr ''2''), (''date'', JStr ''2024-05-010'')],
         [(''id'', JStr ''3''), (''date'', JStr ''2024-05-01'')] ]) ''2024-05-01'')
     = Inr \<lparr>success = True,
            data = JArr [JObj [(''id'', JStr ''1''), (''date'', JStr ''2024-05-01'')],
                         JObj [(''id'', JStr ''3''), (''date'', JStr ''2024-05-01'')] ],
            message = None\<rparr>"
proof -
  have h: "list_all (has_field ''date'')
     (records (world_of [] [] []
        [ [(''id'', JStr ''1''), (''date'', JStr ''2024-05-01'')],
         [(''id'', JStr ''2''), (''date'', JStr ''2024-05-010'')],
         [(''id'', JStr ''3''), (''date'', JStr ''2024-05-01'')] ]) ATTENDANCE_FILE)"
    by (simp add: has_field_def)
  show ?thesis
    using h get_attendance_exact [OF h, of "''2024-05-01''"]
    by (simp add: field_is_def)
qed

section \<open>Failed requests change nothing\<close>

text \<open>The comprehensions and \<open>for\<close> statements raise \<open>KeyError\<close> or \<open>TypeError\<close>, never an \<open>HTTPException\<close>.\<close>

lemma getitem_not_http [simp]: "getitem d k \<noteq> Inl (HTTPException c m)"
  by (simp add: getitem_def split: option.splits)

lemma py_add_not_http [simp]: "py_add x n \<noteq> Inl (HTTPException c m)"
  by (simp add: py_add_def split: option.splits)

lemma py_sub_not_http [simp]: "py_sub x n \<noteq> Inl (HTTPException c m)"
  by (simp add: py_sub_def split: option.splits)

lemma any_field_eq_not_http [simp]: "any_field_eq k v ds \<noteq> Inl (HTTPException c m)"
  by (induction ds) (auto split: sum.splits)

lemma any_two_fields_eq_not_http [simp]:
  "any_two_fields_eq k v k' v' ds \<noteq> Inl (HTTPException c m)"
  by (induction ds) (auto split: sum.splits)

lemma next_field_eq_not_http [simp]: "next_field_eq k v ds \<noteq> Inl (HTTPException c m)"
  by (induction ds) (auto split: sum.splits)

lemma next_two_fields_eq_not_http [simp]:
  "next_two_fields_eq k v k' v' ds \<noteq> Inl (HTTPException c m)"
  by (induction ds) (auto split: sum.splits)

lemma filter_field_eq_not_http [simp]: "filter_field_eq k v ds \<noteq> Inl (HTTPException c m)"
  by (induction ds) (auto split: sum.splits)

lemma filter_field_ne_not_http [simp]: "filter_field_ne k v ds \<noteq> Inl (HTTPException c m)"
  by (induction ds) (auto split: sum.splits)

lemma update_by_id_not_http [simp]: "update_by_id k patch ds \<noteq> Inl (HTTPException c m)"
  by (induction ds) (auto split: sum.splits option.splits prod.splits)

lemma increment_employeeCount_not_http [simp]:
  "increment_employeeCount k ds \<noteq> Inl (HTTPException c m)"
  by (induction ds) (auto split: sum.splits)

lemma decrement_employeeCount_not_http [simp]:
  "decrement_employeeCount e ds \<noteq> Inl (HTTPException c m)"
  by (induction ds) (auto split: sum.splits)

lemma update_existing_not_http [simp]:
  "update_existing r patch ds \<noteq> Inl (HTTPException c m)"
  by (induction ds) (auto split: sum.splits)

lemma new_record_not_http [simp]: "new_record uuid e a \<noteq> Inl (HTTPException c m)"
  by (auto simp: new_record_def split: sum.splits)

lemma upsert_not_http [simp]: "upsert uuid e a x ds \<noteq> Inl (HTTPException c m)"
  by (auto simp: upsert_def split: sum.splits option.splits)

lemma create_district_atomic:
  "fst (create_district w uuid now district) = Inl (HTTPException c d) \<Longrightarrow>
     snd (create_district w uuid now district) = w \<and> (c = 400 \<or> c = 404)"
  by (auto simp: create_district_def or_raise_def Let_def split: sum.splits if_splits)

lemma update_district_atomic:
  "fst (update_district w i patch) = Inl (HTTPException c d) \<Longrightarrow>
     snd (update_district w i patch) = w \<and> (c = 400 \<or> c = 404)"
  by (auto simp: update_district_def or_raise_def Let_def split: sum.splits if_splits option.splits)

lemma delete_district_atomic:
  "fst (delete_district w i) = Inl (HTTPException c d) \<Longrightarrow> snd (delete_district w i) = w \<and> (c = 400 \<or> c = 404)"
  by (auto simp: delete_district_def or_raise_def Let_def split: sum.splits if_splits option.splits)

lemma create_department_atomic:
  "fst (create_department w uuid now department) = Inl (HTTPException c d) \<Longrightarrow>
     snd (create_department w uuid now department) = w \<and> (c = 400 \<or> c = 404)"
  by (auto simp: create_department_def or_raise_def Let_def split: sum.splits if_splits option.splits)

lemma update_department_atomic:
  "fst (update_department w i patch) = Inl (HTTPException c d) \<Longrightarrow>
     snd (update_department w i patch) = w \<and> (c = 400 \<or> c = 404)"
  by (auto simp: update_department_def or_raise_def Let_def split: sum.splits if_splits option.splits)

lemma delete_department_atomic:
  "fst (delete_department w i) = Inl (HTTPException c d) \<Longrightarrow> snd (delete_department w i) = w \<and> (c = 400 \<or> c = 404)"
  by (auto simp: delete_department_def or_raise_def Let_def split: sum.splits if_splits option.splits)

lemma create_employee_atomic:
  "fst (create_employee w uuid now employee) = Inl (HTTPException c d) \<Longrightarrow>
     snd (create_employee w uuid now employee) = w \<and> (c = 400 \<or> c = 404)"
  by (auto simp: create_employee_def or_raise_def Let_def
      split: sum.splits if_splits option.splits)

lemma update_employee_atomic:
  "fst (update_employee w i patch) = Inl (HTTPException c d) \<Longrightarrow>
     snd (update_employee w i patch) = w \<and> (c = 400 \<or> c = 404)"
  by (auto simp: update_employee_def or_raise_def Let_def split: sum.splits if_splits option.splits)

lemma delete_employee_atomic:
  "fst (delete_employee w i) = Inl (HTTPException c d) \<Longrightarrow> snd (delete_employee w i) = w \<and> (c = 400 \<or> c = 404)"
  by (auto simp: delete_employee_def or_raise_def Let_def
      split: sum.splits if_splits option.splits)

lemma mark_attendance_atomic:
  "fst (mark_attendance w uuid a) = Inl (HTTPException c d) \<Longrightarrow> snd (mark_attendance w uuid a) = w \<and> (c = 400 \<or> c = 404)"
  by (auto simp: mark_attendance_def or_raise_def Let_def split: sum.splits if_splits option.splits)

text \<open>
  C9. Whenever a mutating request is answered with an \<open>HTTPException\<close>, its status is 400
  or 404 and the world is the one before the call: no file has been saved (the log of
  writes is part of the world) and every collection is as it was.
\<close>

theorem http_error_leaves_world:
  assumes "fst (route w uuid now r) = Inl (HTTPException c d)"
  shows "snd (route w uuid now r) = w \<and> (c = 400 \<or> c = 404)"
  using assms
  by (cases r)
    (simp_all add: create_district_atomic update_district_atomic delete_district_atomic
      create_department_atomic update_department_atomic delete_department_atomic
      create_employee_atomic update_employee_atomic delete_employee_atomic
      mark_attendance_atomic)

theorem http_error_leaves_world_witness:
  "fst (route (world_of [ [(''id'', JStr ''1'')] ] [ [(''id'', JStr ''7''), (''districtId'', JStr ''1'')] ] [] [])
         ''u'' ''t'' (DELETE_districts ''1''))
     = Inl (HTTPException 400 ''Bu tumanda bo'limlar mavjud'')
   \<and> snd (route (world_of [ [(''id'', JStr ''1'')] ] [ [(''id'', JStr ''7''), (''districtId'', JStr ''1'')] ] [] [])
         ''u'' ''t'' (DELETE_districts ''1''))
     = world_of [ [(''id'', JStr ''1'')] ] [ [(''id'', JStr ''7''), (''districtId'', JStr ''1'')] ] [] []"
proof -
  have h: "fst (route (world_of [ [(''id'', JStr ''1'')] ] [ [(''id'', JStr ''7''), (''districtId'', JStr ''1'')] ] [] [])
         ''u'' ''t'' (DELETE_districts ''1''))
     = Inl (HTTPException 400 ''Bu tumanda bo'limlar mavjud'')"
    by (simp add: delete_district_def getitem_def)
  from http_error_leaves_world [OF h] h show ?thesis by simp
qed

section \<open>Deleting a district\<close>

lemma filter_id: "\<not> list_ex P xs \<Longrightarrow> filter (\<lambda>d. \<not> P d) xs = xs"
  by (induction xs) auto

lemma delete_district_conflict:
  assumes "list_all (has_field ''districtId'') (records w DEPARTMENTS_FILE)"
      and "list_ex (field_is ''districtId'' (JStr i)) (records w DEPARTMENTS_FILE)"
  shows "delete_district w i = (Inl (HTTPException 400 ''Bu tumanda bo'limlar mavjud''), w)"
  using assms by (simp add: delete_district_def any_field_eq_wf)

lemma delete_district_success:
  assumes "list_all (has_field ''districtId'') (records w DEPARTMENTS_FILE)"
      and "list_all (has_field ''id'') (records w DISTRICTS_FILE)"
      and "\<not> list_ex (field_is ''districtId'' (JStr i)) (records w DEPARTMENTS_FILE)"
  shows "delete_district w i =
           (Inr \<lparr>success = True, data = JNull, message = Some ''Tuman o'chirildi''\<rparr>,
            save_json_data w DISTRICTS_FILE
              (filter (\<lambda>d. \<not> field_is ''id'' (JStr i) d) (records w DISTRICTS_FILE)))"
  using assms by (simp add: delete_district_def any_field_eq_wf filter_field_ne_wf)

text \<open>
  C6. With the records of the schema (departments carry \<open>districtId\<close>, districts carry
  \<open>id\<close>): deleting a district fails with status 400 and changes nothing whenever a
  department references it; when none does, it succeeds, removes the districts with
  that id and touches no other collection; when no district has the id it still
  succeeds and the districts are unchanged; deleting a second time succeeds and
  changes no collection.
\<close>

theorem delete_district_conflict_or_idempotent:
  assumes "list_all (has_field ''districtId'') (records w DEPARTMENTS_FILE)"
      and "list_all (has_field ''id'') (records w DISTRICTS_FILE)"
  shows "(list_ex (field_is ''districtId'' (JStr i)) (records w DEPARTMENTS_FILE) \<longrightarrow>
            delete_district w i = (Inl (HTTPException 400 ''Bu tumanda bo'limlar mavjud''), w))
       \<and> (\<not> list_ex (field_is ''districtId'' (JStr i)) (records w DEPARTMENTS_FILE) \<longrightarrow>
            fst (delete_district w i)
              = Inr \<lparr>success = True, data = JNull, message = Some ''Tuman o'chirildi''\<rparr>
            \<and> records (snd (delete_district w i)) DISTRICTS_FILE
              = filter (\<lambda>d. \<not> field_is ''id'' (JStr i) d) (records w DISTRICTS_FILE)
            \<and> (\<forall>p. p \<noteq> DISTRICTS_FILE \<longrightarrow> records (snd (delete_district w i)) p = records w p)
            \<and> (\<not> list_ex (field_is ''id'' (JStr i)) (records w DISTRICTS_FILE) \<longrightarrow>
                 records (snd (delete_district w i)) DISTRICTS_FILE = records w DISTRICTS_FILE)
            \<and> fst (delete_district (snd (delete_district w i)) i)
              = Inr \<lparr>success = True, data = JNull, message = Some ''Tuman o'chirildi''\<rparr>
            \<and> (\<forall>p. records (snd (delete_district (snd (delete_district w i)) i)) p
                   = records (snd (delete_district w i)) p))"
proof (intro conjI impI)
  assume "list_ex (field_is ''districtId'' (JStr i)) (records w DEPARTMENTS_FILE)"
  with assms(1) show "delete_district w i = (Inl (HTTPException 400 ''Bu tumanda bo'limlar mavjud''), w)"
    by (rule delete_district_conflict)
next
  assume free: "\<not> list_ex (field_is ''districtId'' (JStr i)) (records w DEPARTMENTS_FILE)"
  note first = delete_district_success [OF assms free]
  let ?w = "snd (delete_district w i)"
  show "fst (delete_district w i)
      = Inr \<lparr>success = True, data = JNull, message = Some ''Tuman o'chirildi''\<rparr>"
    by (simp add: first)
  show r: "records ?w DISTRICTS_FILE
      = filter (\<lambda>d. \<not> field_is ''id'' (JStr i) d) (records w DISTRICTS_FILE)"
    by (simp add: first)
  show o: "\<forall>p. p \<noteq> DISTRICTS_FILE \<longrightarrow> records ?w p = records w p"
    by (simp add: first)
  show "records ?w DISTRICTS_FILE = records w DISTRICTS_FILE"
    if "\<not> list_ex (field_is ''id'' (JStr i)) (records w DISTRICTS_FILE)"
    using that by (simp add: first filter_id)
  have wf: "list_all (has_field ''districtId'') (records ?w DEPARTMENTS_FILE)"
      "list_all (has_field ''id'') (records ?w DISTRICTS_FILE)"
      "\<not> list_ex (field_is ''districtId'' (JStr i)) (records ?w DEPARTMENTS_FILE)"
    using assms free by (simp_all add: first list_all_iff)
  note second = delete_district_success [OF wf]
  show "fst (delete_district ?w i)
      = Inr \<lparr>success = True, data = JNull, message = Some ''Tuman o'chirildi''\<rparr>"
    by (simp add: second)
  show "\<forall>p. records (snd (delete_district ?w i)) p = records ?w p"
    by (simp add: second r)
qed

theorem delete_district_conflict_or_idempotent_witness:
  "list_all (has_field ''districtId'')
     (records (world_of example_districts example_departments [] []) DEPARTMENTS_FILE)
   \<and> list_all (has_field ''id'')
     (records (world_of example_districts example_departments [] []) DISTRICTS_FILE)
   \<and> delete_district (world_of example_districts example_departments [] []) ''1''
       = (Inl (HTTPException 400 ''Bu tumanda bo'limlar mavjud''),
          world_of example_districts example_departments [] [])
   \<and> fst (delete_district (world_of example_districts example_departments [] []) ''9'')
       = Inr \<lparr>success = True, data = JNull, message = Some ''Tuman o'chirildi''\<rparr>
   \<and> records (snd (delete_district (world_of example_districts example_departments [] []) ''9''))
        DISTRICTS_FILE = example_districts
   \<and> records (snd (delete_district (world_of example_districts example_departments [] []) ''2''))
        DISTRICTS_FILE = [hd example_districts]"
proof -
  let ?w = "world_of example_districts example_departments [] []"
  have h1: "list_all (has_field ''districtId'') (records ?w DEPARTMENTS_FILE)"
    by (simp add: example_departments_def has_field_def)
  have h2: "list_all (has_field ''id'') (records ?w DISTRICTS_FILE)"
    by (simp add: example_districts_def has_field_def)
  show ?thesis
    using h1 h2
      delete_district_conflict_or_idempotent [OF h1 h2, of "''1''"]
      delete_district_conflict_or_idempotent [OF h1 h2, of "''9''"]
      delete_district_conflict_or_idempotent [OF h1 h2, of "''2''"]
    by (simp add: example_departments_def example_districts_def field_is_def)
qed

section \<open>Creating a department\<close>

lemma any_two_fields_eq_wf:
  "list_all (\<lambda>d. has_field k d \<and> has_field k' d) ds \<Longrightarrow>
     any_two_fields_eq k (JStr a) k' (JStr b) ds
       = Inr (list_ex (\<lambda>d. field_is k (JStr a) d \<and> field_is k' (JStr b) d) ds)"
  by (induction ds) (auto simp: has_field_def field_is_def getitem_def)

lemma next_field_eq_wf:
  "list_all (has_field k) ds \<Longrightarrow>
     next_field_eq k (JStr s) ds = Inr (find (field_is k (JStr s)) ds)"
  by (induction ds) (auto simp: has_field_def field_is_def getitem_def)

lemma field_is_truthy: "field_is k v d \<Longrightarrow> truthy d"
  by (auto simp: field_is_def truthy_def)

lemma find_field_is: "find (field_is k v) ds = Some d \<Longrightarrow> field_is k v d"
  by (induction ds) (auto split: if_splits)

lemma map_of_setitem [simp]:
  "map_of (setitem d k v) k' = (if k' = k then Some v else map_of d k')"
  by (simp add: setitem_def update_conv')

lemma getitem_field_is: "field_is k v d \<Longrightarrow> getitem d k = Inr v"
  by (simp add: field_is_def getitem_def)

text \<open>
  The stored \<open>employeeCount\<close> is the one of the request body, here 5, not 0; and a request
  whose \<open>districtId\<close> resolves to no district (the district's id was changed by a \<open>PUT\<close>)
  is answered 400, not 404, when a department with the same number and \<open>districtId\<close>
  exists, because the duplicate test comes first.
\<close>

theorem create_department_counterexample:
  "fst (create_department (world_of example_districts [] [] []) ''u'' ''t'' example_department)
     = Inr \<lparr>success = True,
            data = JObj (stored_department ''u'' ''t'' (JStr ''Toshkent tumani'') example_department),
            message = Some ''Bo'lim muvaffaqiyatli qo'shildi''\<rparr>
   \<and> map (\<lambda>d. map_of d ''employeeCount'')
        (records (snd (create_department (world_of example_districts [] [] []) ''u'' ''t''
                         example_department)) DEPARTMENTS_FILE)
     = [Some (JInt 5)]
   \<and> find (field_is ''id'' (JStr ''1''))
        (records (snd (update_district (world_of example_districts example_departments [] [])
                         ''1'' [(''id'', JStr ''100'')])) DISTRICTS_FILE)
     = None
   \<and> fst (create_department
            (snd (update_district (world_of example_districts example_departments [] [])
                    ''1'' [(''id'', JStr ''100'')]))
            ''u'' ''t'' example_department)
     = Inl (HTTPException 400 ''Bu bo'lim raqami allaqachon mavjud'')"
  by (simp add: create_department_def update_district_def example_districts_def
      example_departments_def example_department_def stored_department_def
      Department_model_dump_def getitem_def setitem_def dict_update_def truthy_def
      opt_int_def opt_str_def field_is_def Let_def)

text \<open>
  C3, as the code has it. With the records of the schema: the request fails with status
  400 whenever a department with the same \<open>departmentNumber\<close> and \<open>districtId\<close> exists;
  otherwise it fails with status 404 when no district has the \<open>districtId\<close>; otherwise it
  succeeds and appends a record whose \<open>districtName\<close> is the name of the first district
  with that id and whose \<open>employeeCount\<close> is the one of the request body. A failure
  leaves the world unchanged.
\<close>

theorem create_department_outcomes:
  assumes "list_all (\<lambda>d. has_field ''departmentNumber'' d \<and> has_field ''districtId'' d)
             (records w DEPARTMENTS_FILE)"
      and "list_all (has_field ''id'') (records w DISTRICTS_FILE)"
  shows "(list_ex (same_number_and_district department) (records w DEPARTMENTS_FILE) \<longrightarrow>
            create_department w uuid now department
              = (Inl (HTTPException 400 ''Bu bo'lim raqami allaqachon mavjud''), w))
       \<and> (\<not> list_ex (same_number_and_district department) (records w DEPARTMENTS_FILE)
            \<and> find (field_is ''id'' (JStr (Department_districtId department)))
                 (records w DISTRICTS_FILE) = None \<longrightarrow>
            create_department w uuid now department
              = (Inl (HTTPException 404 ''Tuman topilmadi''), w))
       \<and> (\<forall>district district_name.
            \<not> list_ex (same_number_and_district department) (records w DEPARTMENTS_FILE)
            \<and> find (field_is ''id'' (JStr (Department_districtId department)))
                 (records w DISTRICTS_FILE) = Some district
            \<and> field_is ''name'' district_name district \<longrightarrow>
            create_department w uuid now department
              = (Inr \<lparr>success = True,
                      data = JObj (stored_department uuid now district_name department),
                      message = Some ''Bo'lim muvaffaqiyatli qo'shildi''\<rparr>,
                 save_json_data w DEPARTMENTS_FILE
                   (records w DEPARTMENTS_FILE
                      @ [stored_department uuid now district_name department])))"
proof -
  have dup: "any_two_fields_eq
      ''departmentNumber'' (JStr (Department_departmentNumber department))
      ''districtId'' (JStr (Department_districtId department)) (records w DEPARTMENTS_FILE)
      = Inr (list_ex (same_number_and_district department) (records w DEPARTMENTS_FILE))"
    using any_two_fields_eq_wf [OF assms(1)]
    unfolding same_number_and_district_def by simp
  have look: "next_field_eq ''id'' (JStr (Department_districtId department))
      (records w DISTRICTS_FILE)
      = Inr (find (field_is ''id'' (JStr (Department_districtId department)))
               (records w DISTRICTS_FILE))"
    by (rule next_field_eq_wf [OF assms(2)])
  show ?thesis
  proof (intro conjI impI allI)
    assume "list_ex (same_number_and_district department) (records w DEPARTMENTS_FILE)"
    then show "create_department w uuid now department
        = (Inl (HTTPException 400 ''Bu bo'lim raqami allaqachon mavjud''), w)"
      by (simp add: create_department_def dup)
  next
    assume "\<not> list_ex (same_number_and_district department) (records w DEPARTMENTS_FILE)
        \<and> find (field_is ''id'' (JStr (Department_districtId department)))
             (records w DISTRICTS_FILE) = None"
    then show "create_department w uuid now department
        = (Inl (HTTPException 404 ''Tuman topilmadi''), w)"
      by (simp add: create_department_def dup look)
  next
    fix district district_name
    assume a: "\<not> list_ex (same_number_and_district department) (records w DEPARTMENTS_FILE)
        \<and> find (field_is ''id'' (JStr (Department_districtId department)))
             (records w DISTRICTS_FILE) = Some district
        \<and> field_is ''name'' district_name district"
    then have t: "truthy district" and n: "getitem district ''name'' = Inr district_name"
      by (auto dest: field_is_truthy getitem_field_is)
    have "setitem (setitem (setitem (Department_model_dump department) ''id'' (JStr uuid))
            ''districtName'' district_name) ''createdAt'' (JStr now)
          = stored_department uuid now district_name department"
      by (simp add: Department_model_dump_def stored_department_def setitem_def)
    with a t n show "create_department w uuid now department
        = (Inr \<lparr>success = True,
                data = JObj (stored_department uuid now district_name department),
                message = Some ''Bo'lim muvaffaqiyatli qo'shildi''\<rparr>,
           save_json_data w DEPARTMENTS_FILE
             (records w DEPARTMENTS_FILE
                @ [stored_department uuid now district_name department]))"
      by (simp add: create_department_def dup look Let_def)
  qed
qed

theorem create_department_outcomes_witness:
  "list_all (\<lambda>d. has_field ''departmentNumber'' d \<and> has_field ''districtId'' d)
     (records (world_of example_districts example_departments [] []) DEPARTMENTS_FILE)
   \<and> list_all (has_field ''id'')
     (records (world_of example_districts example_departments [] []) DISTRICTS_FILE)
   \<and> create_department (world_of example_districts example_departments [] []) ''u'' ''t''
        example_department
     = (Inl (HTTPException 400 ''Bu bo'lim raqami allaqachon mavjud''),
        world_of example_districts example_departments [] [])
   \<and> create_department (world_of example_districts example_departments [] []) ''u'' ''t''
        (example_department\<lparr>Department_districtId := ''9''\<rparr>)
     = (Inl (HTTPException 404 ''Tuman topilmadi''),
        world_of example_districts example_departments [] [])
   \<and> fst (create_department (world_of example_districts example_departments [] []) ''u'' ''t''
        (example_department\<lparr>Department_districtId := ''2''\<rparr>))
     = Inr \<lparr>success = True,
            data = JObj (stored_department ''u'' ''t'' (JStr ''Samarqand tumani'')
                          (example_department\<lparr>Department_districtId := ''2''\<rparr>)),
            message = Some ''Bo'lim muvaffaqiyatli qo'shildi''\<rparr>"
proof -
  let ?w = "world_of example_districts example_departments [] []"
  have h1: "list_all (\<lambda>d. has_field ''departmentNumber'' d \<and> has_field ''districtId'' d)
      (records ?w DEPARTMENTS_FILE)"
    by (simp add: example_departments_def has_field_def)
  have h2: "list_all (has_field ''id'') (records ?w DISTRICTS_FILE)"
    by (simp add: example_districts_def has_field_def)
  show ?thesis
    using h1 h2
      create_department_outcomes [OF h1 h2, of example_department "''u''" "''t''"]
      create_department_outcomes [OF h1 h2,
        of "example_department\<lparr>Department_districtId := ''9''\<rparr>" "''u''" "''t''"]
      create_department_outcomes [OF h1 h2,
        of "example_department\<lparr>Department_districtId := ''2''\<rparr>" "''u''" "''t''"]
    by (simp add: example_departments_def example_districts_def example_department_def
        field_is_def same_number_and_district_def)
qed

section \<open>Creating an employee\<close>

text \<open>
  When the department found has an integer \<open>employeeCount\<close> (or none, read as 0), the
  request succeeds: the employee is appended with the department's name, number and
  district name, and that department, and no other, has its count raised by one.
\<close>

lemma next_field_eq_first:
  assumes "other_ids i pre" "field_is ''id'' (JStr i) d"
  shows "next_field_eq ''id'' (JStr i) (pre @ d # post) = Inr (Some d)"
  using assms
  by (induction pre) (auto simp: other_ids_def has_field_def field_is_def getitem_def)

lemma next_field_eq_none:
  assumes "other_ids i ds"
  shows "next_field_eq ''id'' (JStr i) ds = Inr None"
  using assms
  by (induction ds) (auto simp: other_ids_def has_field_def field_is_def getitem_def)

lemma increment_employeeCount_first:
  assumes "other_ids i pre" "field_is ''id'' (JStr i) d"
      and "dict_get d ''employeeCount'' (JInt 0) = JInt c"
  shows "increment_employeeCount (JStr i) (pre @ d # post)
           = Inr (pre @ setitem d ''employeeCount'' (JInt (c + 1)) # post)"
  using assms
  by (induction pre)
    (auto simp: other_ids_def has_field_def field_is_def getitem_def py_add_def)

lemma create_employee_counts_and_copies:
  assumes phones: "list_all (has_field ''phone'') (records w EMPLOYEES_FILE)"
      and free: "\<not> list_ex (field_is ''phone'' (JStr (Employee_phone employee)))
                     (records w EMPLOYEES_FILE)"
      and deps: "records w DEPARTMENTS_FILE = pre @ department # post"
      and pre: "other_ids (Employee_departmentId employee) pre"
      and dep: "field_is ''id'' (JStr (Employee_departmentId employee)) department"
      and name: "field_is ''name'' department_name department"
      and number: "field_is ''departmentNumber'' department_number department"
      and district: "field_is ''districtName'' district_name department"
      and count: "dict_get department ''employeeCount'' (JInt 0) = JInt c"
  shows "create_employee w uuid now employee
           = (Inr \<lparr>success = True,
                   data = JObj (stored_employee uuid now department_name department_number
                                  district_name employee),
                   message = Some ''Ishchi muvaffaqiyatli qo'shildi''\<rparr>,
              save_json_data
                (save_json_data w EMPLOYEES_FILE
                   (records w EMPLOYEES_FILE
                      @ [stored_employee uuid now department_name department_number
                           district_name employee]))
                DEPARTMENTS_FILE
                (pre @ setitem department ''employeeCount'' (JInt (c + 1)) # post))
       \<and> dict_get (setitem department ''employeeCount'' (JInt (c + 1))) ''employeeCount'' (JInt 0)
           = JInt (c + 1)
       \<and> field_is ''departmentName'' department_name
            (stored_employee uuid now department_name department_number district_name employee)
       \<and> field_is ''departmentNumber'' department_number
            (stored_employee uuid now department_name department_number district_name employee)
       \<and> field_is ''districtName'' district_name
            (stored_employee uuid now department_name department_number district_name employee)"
proof -
  have dup: "any_field_eq ''phone'' (JStr (Employee_phone employee)) (records w EMPLOYEES_FILE)
      = Inr False"
    using any_field_eq_wf [OF phones] free by simp
  have look: "next_field_eq ''id'' (JStr (Employee_departmentId employee))
      (records w DEPARTMENTS_FILE) = Inr (Some department)"
    unfolding deps by (rule next_field_eq_first [OF pre dep])
  have incr: "increment_employeeCount (JStr (Employee_departmentId employee))
      (pre @ department # post)
      = Inr (pre @ setitem department ''employeeCount'' (JInt (c + 1)) # post)"
    by (rule increment_employeeCount_first [OF pre dep count])
  have t: "truthy department" using dep by (rule field_is_truthy)
  have g: "getitem department ''name'' = Inr department_name"
      "getitem department ''departmentNumber'' = Inr department_number"
      "getitem department ''districtName'' = Inr district_name"
    using name number district by (simp_all add: getitem_field_is)
  have st: "setitem (setitem (setitem (setitem (setitem (Employee_model_dump employee)
              ''id'' (JStr uuid)) ''departmentName'' department_name)
              ''departmentNumber'' department_number) ''districtName'' district_name)
              ''createdAt'' (JStr now)
            = stored_employee uuid now department_name department_number district_name employee"
    by (simp add: Employee_model_dump_def stored_employee_def setitem_def)
  have "create_employee w uuid now employee
           = (Inr \<lparr>success = True,
                   data = JObj (stored_employee uuid now department_name department_number
                                  district_name employee),
                   message = Some ''Ishchi muvaffaqiyatli qo'shildi''\<rparr>,
              save_json_data
                (save_json_data w EMPLOYEES_FILE
                   (records w EMPLOYEES_FILE
                      @ [stored_employee uuid now department_name department_number
                           district_name employee]))
                DEPARTMENTS_FILE
                (pre @ setitem department ''employeeCount'' (JInt (c + 1)) # post))"
    unfolding create_employee_def
    by (simp add: dup look t g st Let_def deps [symmetric] incr [unfolded deps [symmetric] ])
  then show ?thesis
    by (simp add: dict_get_def field_is_def stored_employee_def)
qed

lemma create_employee_example:
  "create_employee (world_of example_districts example_departments [] []) ''e1'' ''t''
     (example_employee\<lparr>Employee_departmentId := ''7''\<rparr>)
   = (Inr \<lparr>success = True,
           data = JObj (stored_employee ''e1'' ''t'' (JStr ''IT'') (JStr ''IT-001'')
                          (JStr ''Toshkent tumani'')
                          (example_employee\<lparr>Employee_departmentId := ''7''\<rparr>)),
           message = Some ''Ishchi muvaffaqiyatli qo'shildi''\<rparr>,
      save_json_data
        (save_json_data (world_of example_districts example_departments [] []) EMPLOYEES_FILE
           [stored_employee ''e1'' ''t'' (JStr ''IT'') (JStr ''IT-001'') (JStr ''Toshkent tumani'')
              (example_employee\<lparr>Employee_departmentId := ''7''\<rparr>)])
        DEPARTMENTS_FILE
        [setitem (hd example_departments) ''employeeCount'' (JInt 4)])"
  using create_employee_counts_and_copies
    [of "world_of example_districts example_departments [] []"
        "example_employee\<lparr>Employee_departmentId := ''7''\<rparr>" "[]" "hd example_departments" "[]"
        "JStr ''IT''" "JStr ''IT-001''" "JStr ''Toshkent tumani''" 3 "''e1''" "''t''"]
  by (simp add: example_departments_def example_employee_def other_ids_def field_is_def
      dict_get_def)

text \<open>
  C4. A phone not in use and a \<open>departmentId\<close> that resolves, yet no count is raised: in
  a department stored with \<open>employeeCount\<close> \<open>null\<close> the addition \<open>None + 1\<close> raises
  \<open>TypeError\<close> after the employee has been saved. The employee is in the collection, the
  count is still \<open>null\<close>, and the only writes are the department's creation and the
  employees file.
\<close>

theorem create_employee_null_count:
  "map (\<lambda>d. map_of d ''employeeCount'') (records null_count_world DEPARTMENTS_FILE)
     = [Some JNull]
   \<and> any_field_eq ''phone'' (JStr (Employee_phone example_employee))
        (records null_count_world EMPLOYEES_FILE) = Inr False
   \<and> map (\<lambda>d. map_of d ''id'') (records null_count_world DEPARTMENTS_FILE)
     = [Some (JStr (Employee_departmentId example_employee))]
   \<and> fst (create_employee null_count_world ''e1'' ''t'' example_employee) = Inl TypeError
   \<and> map (\<lambda>e. map_of e ''id'')
        (records (snd (create_employee null_count_world ''e1'' ''t'' example_employee))
           EMPLOYEES_FILE)
     = [Some (JStr ''e1'')]
   \<and> map (\<lambda>d. map_of d ''employeeCount'')
        (records (snd (create_employee null_count_world ''e1'' ''t'' example_employee))
           DEPARTMENTS_FILE)
     = [Some JNull]
   \<and> writes (snd (create_employee null_count_world ''e1'' ''t'' example_employee))
     = [DEPARTMENTS_FILE, EMPLOYEES_FILE]"
  by (simp add: null_count_world_def create_department_def create_employee_def
      example_districts_def example_department_def example_employee_def
      Department_model_dump_def Employee_model_dump_def getitem_def setitem_def truthy_def
      opt_int_def opt_str_def dict_get_def py_add_def Let_def)

section \<open>Updating by \<open>PUT\<close>\<close>

lemma dict_update_Cons: "dict_update d ((k, v) # ps) = dict_update (setitem d k v) ps"
  by (simp add: dict_update_def)

lemma dict_update_Nil [simp]: "dict_update d [] = d"
  by (simp add: dict_update_def)

lemma map_of_dict_update:
  "distinct (map fst patch) \<Longrightarrow>
     map_of (dict_update d patch) k
       = (case map_of patch k of None \<Rightarrow> map_of d k | Some v \<Rightarrow> Some v)"
proof (induction patch arbitrary: d)
  case Nil
  then show ?case by simp
next
  case (Cons p ps)
  obtain a b where p: "p = (a, b)" by (cases p)
  from Cons.prems p have "map_of ps a = None"
    by (simp add: map_of_eq_None_iff)
  with Cons p show ?case
    by (auto simp: dict_update_Cons split: option.splits)
qed

lemma update_by_id_first:
  assumes "other_ids i pre" "field_is ''id'' (JStr i) d"
  shows "update_by_id (JStr i) patch (pre @ d # post)
           = Inr (Some (pre @ dict_update d patch # post, dict_update d patch))"
  using assms
  by (induction pre) (auto simp: other_ids_def has_field_def field_is_def getitem_def)

lemma update_by_id_none:
  assumes "other_ids i ds"
  shows "update_by_id (JStr i) patch ds = Inr None"
  using assms
  by (induction ds) (auto simp: other_ids_def has_field_def field_is_def getitem_def)

lemma other_ids_Nil [simp]: "other_ids i []"
  by (simp add: other_ids_def)

lemma other_ids_append [simp]: "other_ids i (xs @ ys) = (other_ids i xs \<and> other_ids i ys)"
  by (simp add: other_ids_def)

lemma other_ids_Cons [simp]:
  "other_ids i (d # ds) = (has_field ''id'' d \<and> \<not> field_is ''id'' (JStr i) d \<and> other_ids i ds)"
  by (simp add: other_ids_def)

lemma put_found:
  assumes r: "(p, put, ok, nf) \<in> set put_routes"
      and l: "update_by_id (JStr i) patch (records w p) = Inr (Some (xs, d'))"
  shows "put w i patch
           = (Inr \<lparr>success = True, data = JObj d', message = Some ok\<rparr>, save_json_data w p xs)"
  using r l
  by (auto simp: put_routes_def update_district_def update_department_def update_employee_def)

lemma put_not_found:
  assumes r: "(p, put, ok, nf) \<in> set put_routes"
      and l: "update_by_id (JStr i) patch (records w p) = Inr None"
  shows "put w i patch = (Inl (HTTPException 404 nf), w)"
  using r l
  by (auto simp: put_routes_def update_district_def update_department_def update_employee_def)

text \<open>
  Two districts with ids 1 and 2. A first \<open>PUT\<close> gives district 1 the id 2; a second one,
  addressed to id 2, reaches that same (first) record and gives it the id 3. The id of
  the record that was patched has been replaced, yet an update and a lookup with the
  original id 2 still succeed: they reach the other district.
\<close>

theorem put_original_id_counterexample:
  "map (\<lambda>d. map_of d ''id'') (records renamed_once DISTRICTS_FILE)
     = [Some (JStr ''2''), Some (JStr ''2'')]
   \<and> fst (update_district renamed_once ''2'' [(''id'', JStr ''3'')])
     = Inr \<lparr>success = True,
            data = JObj [(''id'', JStr ''3''), (''name'', JStr ''Toshkent tumani''),
                         (''code'', JStr ''TSH001'')],
            message = Some ''Tuman yangilandi''\<rparr>
   \<and> map (\<lambda>d. map_of d ''id'') (records renamed_twice DISTRICTS_FILE)
     = [Some (JStr ''3''), Some (JStr ''2'')]
   \<and> fst (update_district renamed_twice ''2'' [])
     = Inr \<lparr>success = True,
            data = JObj [(''id'', JStr ''2''), (''name'', JStr ''Samarqand tumani''),
                         (''code'', JStr ''SMQ001'')],
            message = Some ''Tuman yangilandi''\<rparr>
   \<and> next_field_eq ''id'' (JStr ''2'') (records renamed_twice DISTRICTS_FILE)
     = Inr (Some [(''id'', JStr ''2''), (''name'', JStr ''Samarqand tumani''),
                  (''code'', JStr ''SMQ001'')])"
  by (simp add: renamed_twice_def renamed_once_def update_district_def example_districts_def
      getitem_def setitem_def dict_update_def)

text \<open>
  C10, as the code has it. For each of the three \<open>PUT\<close> routes and the first record with
  the given id: every item of the body is written into the stored record, \<open>id\<close> and
  \<open>createdAt\<close> like any other key, and the keys the body does not name keep their
  values. When the body gives \<open>id\<close> a value other than the original and no later record
  carries the original id, a lookup by the original id finds nothing and every further
  update addressed to it fails with status 404.
\<close>

theorem put_applies_every_key:
  assumes route: "(p, put, ok, nf) \<in> set put_routes"
      and recs: "records w p = pre @ d # post"
      and pre: "other_ids i pre"
      and found: "field_is ''id'' (JStr i) d"
      and keys: "distinct (map fst patch)"
  shows "put w i patch
           = (Inr \<lparr>success = True, data = JObj (dict_update d patch), message = Some ok\<rparr>,
              save_json_data w p (pre @ dict_update d patch # post))
       \<and> (\<forall>k v. map_of patch k = Some v \<longrightarrow> field_is k v (dict_update d patch))
       \<and> (\<forall>k. map_of patch k = None \<longrightarrow> map_of (dict_update d patch) k = map_of d k)
       \<and> (\<forall>v. map_of patch ''id'' = Some v \<and> v \<noteq> JStr i \<and> other_ids i post \<longrightarrow>
             next_field_eq ''id'' (JStr i) (records (snd (put w i patch)) p) = Inr None
             \<and> (\<forall>patch'. put (snd (put w i patch)) i patch'
                           = (Inl (HTTPException 404 nf), snd (put w i patch))))"
proof -
  have first: "put w i patch
      = (Inr \<lparr>success = True, data = JObj (dict_update d patch), message = Some ok\<rparr>,
         save_json_data w p (pre @ dict_update d patch # post))"
    using put_found [OF route] update_by_id_first [OF pre found, of patch post]
    by (simp add: recs)
  have applied: "field_is k v (dict_update d patch)" if "map_of patch k = Some v" for k v
    using that by (simp add: field_is_def map_of_dict_update [OF keys])
  have kept: "map_of (dict_update d patch) k = map_of d k" if "map_of patch k = None" for k
    using that by (simp add: map_of_dict_update [OF keys])
  have gone: "next_field_eq ''id'' (JStr i) (records (snd (put w i patch)) p) = Inr None
      \<and> (\<forall>patch'. put (snd (put w i patch)) i patch'
             = (Inl (HTTPException 404 nf), snd (put w i patch)))"
    if v: "map_of patch ''id'' = Some v" "v \<noteq> JStr i" "other_ids i post" for v
  proof -
    have "field_is ''id'' v (dict_update d patch)" using v(1) by (rule applied)
    then have "has_field ''id'' (dict_update d patch)"
        "\<not> field_is ''id'' (JStr i) (dict_update d patch)"
      using v(2) by (auto simp: field_is_def has_field_def)
    with pre v(3) have all: "other_ids i (records (snd (put w i patch)) p)"
      by (simp add: first)
    show ?thesis
      using next_field_eq_none [OF all] put_not_found [OF route update_by_id_none [OF all] ]
      by simp
  qed
  from first applied kept gone show ?thesis by blast
qed

theorem put_applies_every_key_witness:
  "(DISTRICTS_FILE, update_district, ''Tuman yangilandi'', ''Tuman topilmadi'') \<in> set put_routes
   \<and> records (world_of example_districts [] [] []) DISTRICTS_FILE
       = [] @ hd example_districts # tl example_districts
   \<and> other_ids ''1'' []
   \<and> field_is ''id'' (JStr ''1'') (hd example_districts)
   \<and> distinct (map fst [(''id'', JStr ''100''), (''createdAt'', JStr ''never'')])
   \<and> other_ids ''1'' (tl example_districts)
   \<and> fst (update_district (world_of example_districts [] [] []) ''1''
            [(''id'', JStr ''100''), (''createdAt'', JStr ''never'')])
       = Inr \<lparr>success = True,
              data = JObj [(''id'', JStr ''100''), (''name'', JStr ''Toshkent tumani''),
                           (''code'', JStr ''TSH001''), (''createdAt'', JStr ''never'')],
              message = Some ''Tuman yangilandi''\<rparr>
   \<and> update_district
         (snd (update_district (world_of example_districts [] [] []) ''1''
                 [(''id'', JStr ''100''), (''createdAt'', JStr ''never'')])) ''1'' []
       = (Inl (HTTPException 404 ''Tuman topilmadi''),
          snd (update_district (world_of example_districts [] [] []) ''1''
                 [(''id'', JStr ''100''), (''createdAt'', JStr ''never'')]))"
proof -
  have h1: "(DISTRICTS_FILE, update_district, ''Tuman yangilandi'', ''Tuman topilmadi'')
      \<in> set put_routes"
    by (simp add: put_routes_def)
  have h2: "records (world_of example_districts [] [] []) DISTRICTS_FILE
      = [] @ hd example_districts # tl example_districts"
    by (simp add: example_districts_def)
  have h3: "other_ids ''1'' []" by simp
  have h4: "field_is ''id'' (JStr ''1'') (hd example_districts)"
    by (simp add: example_districts_def field_is_def)
  have h5: "distinct (map fst [(''id'', JStr ''100''), (''createdAt'', JStr ''never'')])"
    by simp
  have h6: "other_ids ''1'' (tl example_districts)"
    by (simp add: example_districts_def field_is_def has_field_def)
  have d: "dict_update (hd example_districts)
        [(''id'', JStr ''100''), (''createdAt'', JStr ''never'')]
      = [(''id'', JStr ''100''), (''name'', JStr ''Toshkent tumani''),
         (''code'', JStr ''TSH001''), (''createdAt'', JStr ''never'')]"
    by (simp add: example_districts_def dict_update_def setitem_def)
  note t = put_applies_every_key [OF h1 h2 h3 h4 h5]
  from t have a: "fst (update_district (world_of example_districts [] [] []) ''1''
            [(''id'', JStr ''100''), (''createdAt'', JStr ''never'')])
       = Inr \<lparr>success = True,
              data = JObj [(''id'', JStr ''100''), (''name'', JStr ''Toshkent tumani''),
                           (''code'', JStr ''TSH001''), (''createdAt'', JStr ''never'')],
              message = Some ''Tuman yangilandi''\<rparr>"
    by (simp only: d fst_conv)
  have "map_of [(''id'', JStr ''100''), (''createdAt'', JStr ''never'')] ''id''
        = Some (JStr ''100'') \<and> JStr ''100'' \<noteq> JStr ''1'' \<and> other_ids ''1'' (tl example_districts)"
    using h6 by simp
  with t have b: "update_district
         (snd (update_district (world_of example_districts [] [] []) ''1''
                 [(''id'', JStr ''100''), (''createdAt'', JStr ''never'')])) ''1'' []
       = (Inl (HTTPException 404 ''Tuman topilmadi''),
          snd (update_district (world_of example_districts [] [] []) ''1''
                 [(''id'', JStr ''100''), (''createdAt'', JStr ''never'')]))"
    by blast
  from h1 h2 h3 h4 h5 h6 a b show ?thesis by blast
qed

section \<open>Marking attendance\<close>

lemma next_two_fields_eq_wf:
  "list_all (\<lambda>d. has_field ''employeeId'' d \<and> has_field ''date'' d) ds \<Longrightarrow>
     next_two_fields_eq ''employeeId'' (JStr e) ''date'' (JStr D) ds
       = Inr (find (matches e D) ds)"
  by (induction ds) (auto simp: has_field_def field_is_def getitem_def matches_def)

lemma str_field_getitem: "str_field k r \<Longrightarrow> \<exists>s. getitem r k = Inr (JStr s) \<and> map_of r k = Some (JStr s)"
  by (auto simp: str_field_def getitem_def split: option.splits json.splits)

lemma update_existing_at:
  assumes "list_all (has_field ''id'') pre" "str_field ''id'' r"
      and "map_of r ''id'' \<notin> set (map (\<lambda>x. map_of x ''id'') pre)"
  shows "update_existing r patch (pre @ r # post) = Inr (pre @ dict_update r patch # post)"
  using assms
proof (induction pre)
  case Nil
  then show ?case by (auto dest: str_field_getitem)
next
  case (Cons x pre)
  from Cons.prems(2) obtain s where s: "getitem r ''id'' = Inr (JStr s)" "map_of r ''id'' = Some (JStr s)"
    by (auto dest: str_field_getitem)
  from Cons.prems(1) obtain v where v: "getitem x ''id'' = Inr v" "map_of x ''id'' = Some v"
    by (auto dest: getitem_has_field)
  from Cons.prems(3) s v have "v \<noteq> JStr s" by auto
  with Cons s v show ?case by simp
qed

lemma attendance_update_keys:
  "distinct (map fst (attendance_update a))"
  "map_of (attendance_update a) ''id'' = None"
  "map_of (attendance_update a) ''employeeId'' = None"
  "map_of (attendance_update a) ''date'' = None"
  by (simp_all add: attendance_update_def)

lemma dict_update_attendance:
  "map_of (dict_update r (attendance_update a)) ''id'' = map_of r ''id''"
  "map_of (dict_update r (attendance_update a)) ''employeeId'' = map_of r ''employeeId''"
  "map_of (dict_update r (attendance_update a)) ''date'' = map_of r ''date''"
  "carries a (dict_update r (attendance_update a))"
  by (simp_all add: map_of_dict_update attendance_update_keys(1) carries_def field_is_def,
      simp_all add: attendance_update_def)

lemma attendance_wf_update: "attendance_wf r \<Longrightarrow> attendance_wf (dict_update r (attendance_update a))"
  by (simp add: attendance_wf_def str_field_def has_field_def dict_update_attendance)

lemma pair_key_update [simp]: "pair_key (dict_update r (attendance_update a)) = pair_key r"
  by (simp add: pair_key_def dict_update_attendance)

lemma matches_pair_key: "matches e D r \<longleftrightarrow> pair_key r = (Some (JStr e), Some (JStr D))"
  by (auto simp: matches_def pair_key_def field_is_def)

lemma filter_no_match: "list_all (\<lambda>x. \<not> P x) xs \<Longrightarrow> filter P xs = []"
  by (induction xs) auto

lemma find_split:
  "find P xs = Some r \<Longrightarrow> \<exists>pre post. xs = pre @ r # post \<and> P r \<and> list_all (\<lambda>x. \<not> P x) pre"
proof (induction xs)
  case Nil
  then show ?case by simp
next
  case (Cons x xs)
  show ?case
  proof (cases "P x")
    case True
    with Cons.prems have "x # xs = [] @ r # xs \<and> P r \<and> list_all (\<lambda>x. \<not> P x) []" by simp
    then show ?thesis by blast
  next
    case False
    with Cons obtain pre post where "xs = pre @ r # post" "P r" "list_all (\<lambda>x. \<not> P x) pre"
      by auto
    with False have "x # xs = (x # pre) @ r # post \<and> P r \<and> list_all (\<lambda>x. \<not> P x) (x # pre)"
      by simp
    then show ?thesis by blast
  qed
qed

lemma find_None_all: "find P xs = None \<Longrightarrow> list_all (\<lambda>x. \<not> P x) xs"
  by (induction xs) (auto split: if_splits)

lemma matches_truthy: "matches e D r \<Longrightarrow> truthy r"
  by (auto simp: matches_def dest: field_is_truthy)

lemma upsert_existing:
  assumes good: "consistent xs"
      and ex: "find (matches e D) xs = Some r"
  shows "\<exists>xs' r'. upsert uuid employee a (Some r) xs = Inr xs' \<and> consistent xs'
           \<and> filter (matches e D) xs' = [r'] \<and> carries a r'"
proof -
  from find_split [OF ex] obtain pre post where
    xs: "xs = pre @ r # post" and m: "matches e D r" and pre: "list_all (\<lambda>x. \<not> matches e D x) pre"
    by blast
  let ?r = "dict_update r (attendance_update a)"
  let ?xs = "pre @ ?r # post"
  from good xs have wf: "list_all attendance_wf pre" "attendance_wf r" "list_all attendance_wf post"
    and ids: "distinct (map (\<lambda>x. map_of x ''id'') (pre @ r # post))"
    and inv: "distinct (map pair_key (pre @ r # post))"
    by (simp_all add: consistent_def unique_ids_def one_per_pair_def)
  have "list_all (has_field ''id'') pre"
    using wf(1) by (auto simp: list_all_iff attendance_wf_def str_field_def has_field_def
        split: option.splits)
  moreover have "str_field ''id'' r" using wf(2) by (simp add: attendance_wf_def)
  moreover have "map_of r ''id'' \<notin> set (map (\<lambda>x. map_of x ''id'') pre)" using ids by auto
  ultimately have upd: "update_existing r (attendance_update a) xs = Inr ?xs"
    unfolding xs by (rule update_existing_at)
  have res: "upsert uuid employee a (Some r) xs = Inr ?xs"
    using m upd by (simp add: upsert_def matches_truthy)
  have good': "consistent ?xs"
    using wf ids inv
    by (simp add: consistent_def unique_ids_def one_per_pair_def attendance_wf_update
        dict_update_attendance)
  have m': "matches e D ?r"
    using m by (simp add: matches_pair_key)
  have "list_all (\<lambda>x. \<not> matches e D x) post"
    unfolding list_all_iff
  proof
    fix x assume "x \<in> set post"
    then have "pair_key x \<in> pair_key ` set post" by (rule imageI)
    moreover have "pair_key r \<notin> pair_key ` set post" using inv by simp
    ultimately have "pair_key x \<noteq> pair_key r" by metis
    then show "\<not> matches e D x" using m by (simp add: matches_pair_key)
  qed
  with pre m' have "filter (matches e D) ?xs = [?r]"
    by (simp add: filter_no_match)
  with res good' dict_update_attendance(4) [of a r] show ?thesis by blast
qed

lemma upsert_new:
  assumes good: "consistent xs"
      and ex: "find (matches e D) xs = None"
      and fresh: "Some (JStr uuid) \<notin> set (map (\<lambda>r. map_of r ''id'') xs)"
      and emp: "has_field ''name'' employee" "has_field ''departmentName'' employee"
      and a: "AttendanceCreate_employeeId a = e" "AttendanceCreate_date a = D"
  shows "\<exists>xs' r'. upsert uuid employee a None xs = Inr xs' \<and> consistent xs'
           \<and> filter (matches e D) xs' = [r'] \<and> carries a r'"
proof -
  from emp obtain n d where nd: "getitem employee ''name'' = Inr n"
      "getitem employee ''departmentName'' = Inr d"
    using getitem_has_field [of "''name''" employee]
      getitem_has_field [of "''departmentName''" employee]
    by blast
  define r where "r = [(''id'', JStr uuid), (''employeeName'', n), (''employeeId'', JStr e),
      (''department'', d), (''date'', JStr D),
      (''checkIn'', opt_str (AttendanceCreate_checkIn a)),
      (''checkOut'', opt_str (AttendanceCreate_checkOut a)),
      (''status'', JStr (AttendanceCreate_status a)),
      (''workHours'', JStr (calculate_work_hours (AttendanceCreate_checkIn a)
                              (AttendanceCreate_checkOut a))),
      (''location'', opt_dict (AttendanceCreate_location a))]"
  have new: "new_record uuid employee a = Inr r"
    by (simp add: new_record_def nd r_def a)
  have res: "upsert uuid employee a None xs = Inr (xs @ [r])"
    by (simp add: upsert_def new)
  have rk: "pair_key r = (Some (JStr e), Some (JStr D))" "map_of r ''id'' = Some (JStr uuid)"
      "attendance_wf r" "carries a r"
    by (simp_all add: r_def pair_key_def attendance_wf_def str_field_def has_field_def
        carries_def field_is_def)
  have none: "list_all (\<lambda>x. \<not> matches e D x) xs" using ex by (rule find_None_all)
  then have "pair_key r \<notin> set (map pair_key xs)"
    unfolding rk(1) by (auto simp: list_all_iff matches_pair_key)
  with good fresh rk have good': "consistent (xs @ [r])"
    by (simp add: consistent_def unique_ids_def one_per_pair_def)
  have "filter (matches e D) (xs @ [r]) = [r]"
    using none rk(1) by (simp add: filter_no_match matches_pair_key)
  with res good' rk(4) show ?thesis by blast
qed

lemma mark_attendance_step:
  assumes good: "consistent (records w ATTENDANCE_FILE)"
      and emps: "list_all (has_field ''id'') (records w EMPLOYEES_FILE)"
      and emp: "find (field_is ''id'' (JStr e)) (records w EMPLOYEES_FILE) = Some employee"
      and fields: "has_field ''name'' employee" "has_field ''departmentName'' employee"
      and a: "AttendanceCreate_employeeId a = e" "AttendanceCreate_date a = D"
      and fresh: "list_ex (matches e D) (records w ATTENDANCE_FILE)
                  \<or> Some (JStr uuid) \<notin> set (map (\<lambda>r. map_of r ''id'') (records w ATTENDANCE_FILE))"
  shows "\<exists>xs' r'. mark_attendance w uuid a = (Inr marked, save_json_data w ATTENDANCE_FILE xs')
           \<and> consistent xs' \<and> filter (matches e D) xs' = [r'] \<and> carries a r'"
proof -
  let ?xs = "records w ATTENDANCE_FILE"
  have look: "next_field_eq ''id'' (JStr (AttendanceCreate_employeeId a))
      (records w EMPLOYEES_FILE) = Inr (Some employee)"
    using next_field_eq_wf [OF emps] emp a by simp
  have t: "truthy employee" using find_field_is [OF emp] by (rule field_is_truthy)
  have "list_all (\<lambda>d. has_field ''employeeId'' d \<and> has_field ''date'' d) ?xs"
    using good by (auto simp: consistent_def list_all_iff attendance_wf_def)
  then have ex: "next_two_fields_eq ''employeeId'' (JStr (AttendanceCreate_employeeId a))
      ''date'' (JStr (AttendanceCreate_date a)) ?xs = Inr (find (matches e D) ?xs)"
    using a by (simp add: next_two_fields_eq_wf)
  have "\<exists>xs' r'. upsert uuid employee a (find (matches e D) ?xs) ?xs = Inr xs' \<and> consistent xs'
           \<and> filter (matches e D) xs' = [r'] \<and> carries a r'"
  proof (cases "find (matches e D) ?xs")
    case None
    then have "\<not> list_ex (matches e D) ?xs"
      by (auto simp: list_ex_iff dest!: find_None_all simp: list_all_iff)
    with fresh have "Some (JStr uuid) \<notin> set (map (\<lambda>r. map_of r ''id'') ?xs)" by simp
    from upsert_new [OF good None this fields a] None show ?thesis by simp
  next
    case (Some r)
    from upsert_existing [OF good Some] Some show ?thesis by simp
  qed
  then obtain xs' r' where "upsert uuid employee a (find (matches e D) ?xs) ?xs = Inr xs'"
    "consistent xs'" "filter (matches e D) xs' = [r']" "carries a r'"
    by blast
  moreover from this(1) have "mark_attendance w uuid a
      = (Inr marked, save_json_data w ATTENDANCE_FILE xs')"
    by (simp add: mark_attendance_def look t ex marked_def)
  ultimately show ?thesis by blast
qed

text \<open>
  A collection with one record per employee and date in which two records share an
  \<open>id\<close>: both requests for employee 5 succeed, and both update the first record with that
  id, which belongs to employee 1; the record of employee 5 keeps its old check-in. And
  with an \<open>employeeId\<close> that no employee has, both requests fail with status 404 and no
  record exists for the pair.
\<close>

theorem mark_attendance_twice_counterexample:
  "one_per_pair (records (world_of [] [] example_employees shared_id_attendance) ATTENDANCE_FILE)
   \<and> fst (mark_attendance (world_of [] [] example_employees shared_id_attendance) ''u1'' first_mark)
       = Inr marked
   \<and> fst (mark_attendance
            (snd (mark_attendance (world_of [] [] example_employees shared_id_attendance)
                    ''u1'' first_mark)) ''u2'' second_mark)
       = Inr marked
   \<and> map (\<lambda>r. map_of r ''checkIn'')
        (filter (matches ''5'' ''2024-05-01'')
           (records (marked_twice (world_of [] [] example_employees shared_id_attendance))
              ATTENDANCE_FILE))
       = [Some (JStr ''08:00'')]
   \<and> fst (mark_attendance (world_of [] [] [] []) ''u1'' first_mark)
       = Inl (HTTPException 404 ''Ishchi topilmadi'')
   \<and> filter (matches ''5'' ''2024-05-01'')
        (records (marked_twice (world_of [] [] [] [])) ATTENDANCE_FILE)
       = []"
  by (simp add: marked_twice_def mark_attendance_def upsert_def attendance_update_def
      example_employees_def shared_id_attendance_def first_mark_def second_mark_def
      one_per_pair_def pair_key_def matches_def field_is_def marked_def
      getitem_def setitem_def dict_update_def truthy_def opt_str_def opt_dict_def)

text \<open>
  C5, as the code has it. In a consistent attendance collection (one record per
  employee and date, records identified by pairwise distinct string ids), for an
  \<open>employeeId\<close> that resolves to an employee and a first generated id not in use: two
  requests for the same employee and date both succeed, the collection is consistent
  afterwards, and it holds exactly one record for the pair, with the check-in,
  check-out, status, location and recomputed work hours of the second request.
\<close>

theorem mark_attendance_twice:
  assumes good: "consistent (records w ATTENDANCE_FILE)"
      and emps: "list_all (has_field ''id'') (records w EMPLOYEES_FILE)"
      and emp: "find (field_is ''id'' (JStr e)) (records w EMPLOYEES_FILE) = Some employee"
      and fields: "has_field ''name'' employee" "has_field ''departmentName'' employee"
      and a1: "AttendanceCreate_employeeId a1 = e" "AttendanceCreate_date a1 = D"
      and a2: "AttendanceCreate_employeeId a2 = e" "AttendanceCreate_date a2 = D"
      and fresh: "Some (JStr uuid1) \<notin> set (map (\<lambda>r. map_of r ''id'') (records w ATTENDANCE_FILE))"
  shows "fst (mark_attendance w uuid1 a1) = Inr marked
       \<and> fst (mark_attendance (snd (mark_attendance w uuid1 a1)) uuid2 a2) = Inr marked
       \<and> consistent (records (snd (mark_attendance (snd (mark_attendance w uuid1 a1)) uuid2 a2))
                       ATTENDANCE_FILE)
       \<and> (\<exists>r. filter (matches e D)
                 (records (snd (mark_attendance (snd (mark_attendance w uuid1 a1)) uuid2 a2))
                    ATTENDANCE_FILE) = [r]
              \<and> carries a2 r)"
proof -
  from fresh have f1: "list_ex (matches e D) (records w ATTENDANCE_FILE)
      \<or> Some (JStr uuid1) \<notin> set (map (\<lambda>r. map_of r ''id'') (records w ATTENDANCE_FILE))"
    by simp
  from mark_attendance_step [OF good emps emp fields a1 f1] obtain xs1 r1 where
    s1: "mark_attendance w uuid1 a1 = (Inr marked, save_json_data w ATTENDANCE_FILE xs1)"
    and g1: "consistent xs1" and m1: "filter (matches e D) xs1 = [r1]"
    by blast
  let ?w1 = "save_json_data w ATTENDANCE_FILE xs1"
  have good1: "consistent (records ?w1 ATTENDANCE_FILE)" using g1 by simp
  have emps1: "list_all (has_field ''id'') (records ?w1 EMPLOYEES_FILE)" using emps by simp
  have emp1: "find (field_is ''id'' (JStr e)) (records ?w1 EMPLOYEES_FILE) = Some employee"
    using emp by simp
  have "r1 \<in> set (filter (matches e D) xs1)" using m1 by simp
  then have "list_ex (matches e D) (records ?w1 ATTENDANCE_FILE)"
    by (auto simp: list_ex_iff)
  then have f2: "list_ex (matches e D) (records ?w1 ATTENDANCE_FILE)
      \<or> Some (JStr uuid2) \<notin> set (map (\<lambda>r. map_of r ''id'') (records ?w1 ATTENDANCE_FILE))"
    by simp
  from mark_attendance_step [OF good1 emps1 emp1 fields a2 f2] obtain xs2 r2 where
    s2: "mark_attendance ?w1 uuid2 a2 = (Inr marked, save_json_data ?w1 ATTENDANCE_FILE xs2)"
    and g2: "consistent xs2" and m2: "filter (matches e D) xs2 = [r2]" and c2: "carries a2 r2"
    by blast
  show ?thesis
    using g2 m2 c2 by (simp add: s1 s2)
qed

theorem mark_attendance_twice_witness:
  "consistent (records (world_of [] [] example_employees []) ATTENDANCE_FILE)
   \<and> list_all (has_field ''id'') (records (world_of [] [] example_employees []) EMPLOYEES_FILE)
   \<and> find (field_is ''id'' (JStr ''5'')) (records (world_of [] [] example_employees []) EMPLOYEES_FILE)
       = Some (hd example_employees)
   \<and> has_field ''name'' (hd example_employees)
   \<and> has_field ''departmentName'' (hd example_employees)
   \<and> Some (JStr ''u1'')
        \<notin> set (map (\<lambda>r. map_of r ''id'') (records (world_of [] [] example_employees []) ATTENDANCE_FILE))
   \<and> map (\<lambda>r. (map_of r ''checkIn'', map_of r ''checkOut'', map_of r ''status'', map_of r ''workHours''))
        (filter (matches ''5'' ''2024-05-01'')
           (records (marked_twice (world_of [] [] example_employees [])) ATTENDANCE_FILE))
       = [(Some (JStr ''10:00''), Some (JStr ''12:00''), Some (JStr ''late''), Some (JStr ''2:00''))]"
proof -
  let ?w = "world_of [] [] example_employees []"
  have h1: "consistent (records ?w ATTENDANCE_FILE)"
    by (simp add: consistent_def unique_ids_def one_per_pair_def)
  have h2: "list_all (has_field ''id'') (records ?w EMPLOYEES_FILE)"
    by (simp add: example_employees_def has_field_def)
  have h3: "find (field_is ''id'' (JStr ''5'')) (records ?w EMPLOYEES_FILE)
      = Some (hd example_employees)"
    by (simp add: example_employees_def field_is_def)
  have h4: "has_field ''name'' (hd example_employees)"
    and h5: "has_field ''departmentName'' (hd example_employees)"
    by (simp_all add: example_employees_def has_field_def)
  have a1: "AttendanceCreate_employeeId first_mark = ''5''"
      "AttendanceCreate_date first_mark = ''2024-05-01''"
    by (simp_all add: first_mark_def)
  have a2: "AttendanceCreate_employeeId second_mark = ''5''"
      "AttendanceCreate_date second_mark = ''2024-05-01''"
    by (simp_all add: second_mark_def)
  have h6: "Some (JStr ''u1'') \<notin> set (map (\<lambda>r. map_of r ''id'') (records ?w ATTENDANCE_FILE))"
    by simp
  have hours: "calculate_work_hours (Some ''10:00'') (Some ''12:00'') = ''2:00''"
    by code_simp
  from mark_attendance_twice [OF h1 h2 h3 h4 h5 a1 a2 h6, of "''u2''"]
  obtain r where r: "filter (matches ''5'' ''2024-05-01'') (records (marked_twice ?w) ATTENDANCE_FILE) = [r]"
      "carries second_mark r"
    unfolding marked_twice_def by blast
  from r(2) have "(map_of r ''checkIn'', map_of r ''checkOut'', map_of r ''status'', map_of r ''workHours'')
      = (Some (JStr ''10:00''), Some (JStr ''12:00''), Some (JStr ''late''), Some (JStr ''2:00''))"
    by (simp add: carries_def field_is_def second_mark_def opt_str_def hours)
  with r(1) h1 h2 h3 h4 h5 h6 show ?thesis by simp
qed

section \<open>Attendance percentage\<close>

lemma py_round1_nonneg: "0 \<le> x \<Longrightarrow> 0 \<le> py_round1 x"
proof -
  assume "0 \<le> x"
  then have "0 \<le> \<lfloor>x * 10\<rfloor>" by simp
  then show ?thesis by (simp add: py_round1_def Let_def)
qed

lemma py_round1_le_100: "x \<le> 100 \<Longrightarrow> py_round1 x \<le> 100"
proof -
  assume "x \<le> 100"
  then have y: "x * 10 \<le> 1000" by simp
  then have f: "\<lfloor>x * 10\<rfloor> \<le> 1000" by (simp add: floor_le_iff)
  define k where "k = (let y = x * 10; f = \<lfloor>y\<rfloor>; r = y - of_int f
      in if r < 1 / 2 then f else if r > 1 / 2 then f + 1 else if even f then f else f + 1)"
  have "k \<le> 1000"
  proof (cases "\<lfloor>x * 10\<rfloor> = 1000")
    case True
    then have "of_int \<lfloor>x * 10\<rfloor> = (1000::rat)" by simp
    moreover have "(of_int \<lfloor>x * 10\<rfloor> :: rat) \<le> x * 10" by (rule of_int_floor_le)
    ultimately have "x * 10 = 1000" using y by simp
    then show ?thesis by (simp add: k_def Let_def)
  next
    case False
    have "\<lfloor>x * 10\<rfloor> \<le> 999" using f False by linarith
    then show ?thesis by (simp add: k_def Let_def)
  qed
  then have "(of_int k :: rat) \<le> 1000" by simp
  then have "(of_int k :: rat) / 10 \<le> 100" by simp
  then show ?thesis by (simp add: py_round1_def k_def Let_def)
qed

lemma percentage_of_nonneg: "0 \<le> n \<Longrightarrow> 0 \<le> percentage_of n t"
  by (simp add: percentage_of_def)

lemma percentage_of_le_100: "n \<le> t \<Longrightarrow> percentage_of n t \<le> 100"
  by (simp add: percentage_of_def divide_le_eq)

lemma or_raise_success:
  assumes "or_raise m w k = (Inr st, w')"
  obtains v where "m = Inr v" "k v = (Inr st, w')"
  using assms by (cases m) (auto simp: or_raise_def)

lemma filter_field_eq_Inr:
  "filter_field_eq k (JStr s) ds = Inr r \<Longrightarrow> r = filter (field_is k (JStr s)) ds"
  by (induction ds arbitrary: r)
    (auto simp: field_is_def getitem_def split: sum.splits option.splits if_splits)




end
